theory Spec2Isabelle
  imports
    Main
    "HOL-Library.Char_ord"
    "HOL-Library.List_Lexorder"
    "HOL-Library.Product_Lexorder"
    "HOL-Library.Multiset"
    "HOL-Library.Log_Nat"
begin

chapter \<open>thesis-rag: the evaluation suite factory and the LaTeX report generator\<close>

text \<open>
  Two Python modules are embedded here.
  \<^item> \<^verbatim>\<open>src/deepeval_metrics.py\<close>: \<^verbatim>\<open>get_metrics\<close>, which builds five DeepEval metric
    objects, each with a threshold resolved from the \<^verbatim>\<open>thresholds\<close> argument.
  \<^item> \<^verbatim>\<open>src/test.py\<close>: \<^verbatim>\<open>generate_full_latex_table\<close>, which reads a CSV of results with
    pandas, filters, relabels and sorts the rows, and prints them as a LaTeX longtable.
\<close>

section \<open>The evaluation suite factory (\<^verbatim>\<open>deepeval_metrics.py\<close>)\<close>

subsection \<open>Data\<close>

text \<open>
  \<^verbatim>\<open>LLMTestCaseParams\<close> is DeepEval's enumeration of the test-case fields a metric may read.
\<close>

datatype LLMTestCaseParams = INPUT | ACTUAL_OUTPUT | EXPECTED_OUTPUT | CONTEXT

text \<open>
  The argument \<^verbatim>\<open>thresholds: Union[float, Dict[str, float]] = 0.7\<close>. The function tells
  the two annotated forms apart by \<^verbatim>\<open>isinstance(thresholds, float)\<close>. Python does not
  enforce an annotation, and an \<^verbatim>\<open>int\<close> is accepted by convention wherever \<^verbatim>\<open>float\<close> is
  annotated, so \<^verbatim>\<open>thresholds=1\<close> is a call a user may write: an \<^verbatim>\<open>int\<close> is the third form
  here. It is not an instance of \<^verbatim>\<open>float\<close> and has no method \<^verbatim>\<open>get\<close>. A threshold is only
  passed on and never computed with, so a Python float is read as the real number it
  denotes; the literals \<^verbatim>\<open>0.9\<close> and \<^verbatim>\<open>0.8\<close> are the numerals of the same name.
\<close>

datatype thresholds_arg =
    ThFloat real
  | ThDict "string \<rightharpoonup> real"
  | ThInt int

text \<open>
  The five metric classes are DeepEval's, outside the repository. A value of
  \<open>metric_call\<close> is a call of one of their constructors with its keyword arguments
  evaluated: \<^verbatim>\<open>GEval\<close> is the rubric-graded metric (criteria and evaluation steps in
  prose), the three others are DeepEval's built-in classifier metrics. The \<^verbatim>\<open>model\<close>
  argument (\<^verbatim>\<open>None\<close>, a model name or a model object) is passed on as it came, so its
  type is a parameter.

  What a call does is the library's business and not fixed by this repository: it
  returns a metric object or raises, and the object need not hold the arguments as they
  were given (DeepEval puts a default grading model in the place of \<^verbatim>\<open>model=None\<close>, and
  raises when it cannot set one up). The library is therefore an argument of
  \<open>get_metrics\<close> below: a function \<open>deepeval\<close> from calls to \<open>'e + 'obj\<close>, with \<open>Inl e\<close>
  for a call that raises \<open>e\<close> and \<open>Inr obj\<close> for a call that returns the object \<open>obj\<close>.
\<close>

datatype 'm metric_call =
    GEval
      (name: string)
      (threshold: real)
      (criteria: string)
      (evaluation_steps: "string list")
      (evaluation_params: "LLMTestCaseParams list")
      (metric_model: "'m option")
      (include_g_eval_suffix: bool)
  | AnswerRelevancyMetric (threshold: real) (metric_model: "'m option") (metric_include_reason: bool)
  | FaithfulnessMetric (threshold: real) (metric_model: "'m option") (metric_include_reason: bool)
  | HallucinationMetric (threshold: real) (metric_model: "'m option") (metric_include_reason: bool)


text \<open>
  The exceptions that can leave \<^verbatim>\<open>get_metrics\<close>: the \<^verbatim>\<open>AttributeError\<close> of
  \<^verbatim>\<open>thresholds.get\<close> on an object without that method, and whatever a constructor of
  the library raises.
\<close>

datatype 'e get_metrics_exception =
    AttributeError
  | Raised 'e

text \<open>Sequencing: the first exception ends the evaluation.\<close>

definition and_then :: "'x + 'a \<Rightarrow> ('a \<Rightarrow> 'x + 'b) \<Rightarrow> 'x + 'b" where
  "and_then r f = (case r of Inl e \<Rightarrow> Inl e | Inr v \<Rightarrow> f v)"

text \<open>A call of a DeepEval constructor from inside \<^verbatim>\<open>get_metrics\<close>.\<close>

definition construct ::
    "('m metric_call \<Rightarrow> 'e + 'obj) \<Rightarrow> 'm metric_call \<Rightarrow> 'e get_metrics_exception + 'obj" where
  "construct deepeval c = (case deepeval c of Inl e \<Rightarrow> Inl (Raised e) | Inr obj \<Rightarrow> Inr obj)"

subsection \<open>Threshold resolution\<close>

text \<open>Python's \<^verbatim>\<open>d.get(key, default)\<close> on a dictionary: it never raises.\<close>

definition dict_get :: "('k \<rightharpoonup> 'v) \<Rightarrow> 'k \<Rightarrow> 'v \<Rightarrow> 'v" where
  "dict_get d key dflt = (case d key of Some v \<Rightarrow> v | None \<Rightarrow> dflt)"

text \<open>
  The expression written at each of the five constructor calls,
  \<^verbatim>\<open>thresholds if isinstance(thresholds, float) else thresholds.get(key, dflt)\<close>. For an
  \<^verbatim>\<open>int\<close> the test is false and the attribute lookup \<^verbatim>\<open>thresholds.get\<close> raises
  \<^verbatim>\<open>AttributeError\<close>.
\<close>

definition threshold_for ::
    "thresholds_arg \<Rightarrow> string \<Rightarrow> real \<Rightarrow> 'e get_metrics_exception + real" where
  "threshold_for thresholds key dflt =
     (case thresholds of
        ThFloat s \<Rightarrow> Inr s
      | ThDict d \<Rightarrow> Inr (dict_get d key dflt)
      | ThInt n \<Rightarrow> Inl AttributeError)"

subsection \<open>The rubrics\<close>

definition correctness_criteria :: string where
  "correctness_criteria =
     ''Determine whether the actual output is factually correct based on the expected output.''"

definition correctness_steps :: "string list" where
  "correctness_steps =
   [''Check whether the actual output is either empty or explicitly states that the question cannot be answered with the given context. If the expected output also states that the question cannot be answered, assign the maximum score and skip further steps.'',
    ''If the expected output provides an answer, verify whether the facts in 'actual output' contradict any facts in 'expected output'.'',
    ''Heavily penalize omission of key details present in the expected output.'',
    ''Vague language or contradicting OPINIONS are acceptable and should not be penalized.'',
    ''If the expected output states that the question cannot be answered with the given context but the actual output attempts to provide an answer, apply a heavy penalty.'']"

definition specific_info_criteria :: string where
  "specific_info_criteria =
     ''Evaluate whether the actual output appropriately responds to the input question given the context, ''
     @ ''without introducing specific information (e.g., names, places, numbers) that is not explicitly provided in the context. ''
     @ ''Use the expected output to determine whether the model should answer the question or state that it cannot answer.''"

definition specific_info_steps :: "string list" where
  "specific_info_steps =
   [''Carefully read the context and identify all specific information (such as names, places, numbers) explicitly mentioned.'',
    ''Review the expected output to understand whether the question is answerable given the context.'',
    ''Analyze the actual output to see if it includes specific information not present in the context.'',
    ''If the expected output indicates that the question cannot be answered:'',
    ''    - If the actual output correctly states that it cannot answer the question with the given context or provides an appropriate non-informative response, assign the highest possible score.'',
    ''    - If the actual output attempts to answer the question by introducing information not present in the context, assign the lowest possible score.'',
    ''If the expected output indicates that the question can be answered:'',
    ''    - If the actual output answers the question using only the information present in the context without adding any inferred or external information, assign a high score based on the answer's accuracy.'',
    ''    - If the actual output includes any specific information (names, places, numbers) that is not present in the context, assign a lower score accordingly.'',
    ''Provide a final score based on the above criteria, ensuring that the evaluation is consistent with the expected output.'']"

subsection \<open>\<^verbatim>\<open>get_metrics\<close>\<close>

text \<open>
  The function builds the five metrics one after the other and returns them in a list
  literal. For each, Python first evaluates the keyword arguments, of which only the
  threshold can raise, and then calls the constructor. The function contains no
  \<^verbatim>\<open>raise\<close>, no \<^verbatim>\<open>try\<close> and no test of a threshold's value, so an exception of either
  step leaves it at once.
\<close>

definition get_metrics ::
    "('m metric_call \<Rightarrow> 'e + 'obj) \<Rightarrow> 'm option \<Rightarrow> thresholds_arg \<Rightarrow> bool
       \<Rightarrow> 'e get_metrics_exception + 'obj list" where
  "get_metrics deepeval model thresholds include_reason =
     and_then (threshold_for thresholds ''Correctness'' 0.9) (\<lambda>t.
     and_then (construct deepeval
                 (GEval ''Correctness'' t correctness_criteria correctness_steps
                    [INPUT, ACTUAL_OUTPUT, EXPECTED_OUTPUT] model False))
       (\<lambda>correctness_metric.
     and_then (threshold_for thresholds ''Specific Information Accuracy'' 0.9) (\<lambda>t.
     and_then (construct deepeval
                 (GEval ''Specific Information Accuracy'' t specific_info_criteria
                    specific_info_steps
                    [INPUT, ACTUAL_OUTPUT, EXPECTED_OUTPUT, CONTEXT] model False))
       (\<lambda>specific_info_accuracy_metric.
     and_then (threshold_for thresholds ''Answer Relevancy'' 0.9) (\<lambda>t.
     and_then (construct deepeval (AnswerRelevancyMetric t model include_reason))
       (\<lambda>answer_relevancy.
     and_then (threshold_for thresholds ''Faithfulness'' 0.9) (\<lambda>t.
     and_then (construct deepeval (FaithfulnessMetric t model include_reason))
       (\<lambda>faithfulness_metric.
     and_then (threshold_for thresholds ''Hallucination'' 0.8) (\<lambda>t.
     and_then (construct deepeval (HallucinationMetric t model include_reason))
       (\<lambda>hallucinationMetric.
     Inr [correctness_metric,
          specific_info_accuracy_metric,
          answer_relevancy,
          faithfulness_metric,
          hallucinationMetric]))))))))))"

section \<open>The report generator (\<^verbatim>\<open>test.py\<close>)\<close>

subsection \<open>Strings\<close>

text \<open>
  Python strings are lists of characters, a character outside ASCII being its UTF-8
  bytes. The backslash and the line feed are written by their codes.
\<close>

definition bslash :: char where
  "bslash = CHR 0x5C"

definition newline :: char where
  "newline = CHR 0x0A"

definition tex :: "string \<Rightarrow> string" where
  "tex s = bslash # s"

text \<open>\<^verbatim>\<open>sep.join(xs)\<close>.\<close>

fun str_join :: "string \<Rightarrow> string list \<Rightarrow> string" where
  "str_join sep [] = []"
| "str_join sep [x] = x"
| "str_join sep (x # y # ys) = x @ sep @ str_join sep (y # ys)"

text \<open>
  \<^verbatim>\<open>s.replace(old, new)\<close>: the occurrences of \<open>old\<close> are found from the left and do not
  overlap; with an empty \<open>old\<close>, \<open>new\<close> is put before every character and at the end.
\<close>

function str_replace :: "string \<Rightarrow> string \<Rightarrow> string \<Rightarrow> string" where
  "str_replace [] old new = (if old = [] then new else [])"
| "str_replace (c # cs) old new =
     (if old = [] then new @ c # str_replace cs old new
      else if take (length old) (c # cs) = old
        then new @ str_replace (drop (length old) (c # cs)) old new
      else c # str_replace cs old new)"
  by pat_completeness auto
termination
  by (relation "measure (\<lambda>(s, old, new). length s)") (auto simp: Suc_diff_le)

subsection \<open>Floating-point cells\<close>

text \<open>
  A numeric cell of the data frame is a binary64 value: a finite number, read here as
  the rational it is, negative zero, an infinity, or NaN, which is what pandas gives for
  an empty cell.
\<close>

datatype pyfloat = Finite rat | NegZero | PosInf | NegInf | NaN

text \<open>\<^verbatim>\<open>pd.notna\<close> on a float.\<close>

definition notna :: "pyfloat \<Rightarrow> bool" where
  "notna v = (v \<noteq> NaN)"

definition is_finite :: "pyfloat \<Rightarrow> bool" where
  "is_finite v = (case v of Finite x \<Rightarrow> True | NegZero \<Rightarrow> True | _ \<Rightarrow> False)"

definition round_half_even :: "rat \<Rightarrow> int" where
  "round_half_even x =
     (let f = \<lfloor>x\<rfloor>; r = x - of_int f
      in if r < 1 / 2 then f
         else if 1 / 2 < r then f + 1
         else if even f then f else f + 1)"

definition pow2 :: "int \<Rightarrow> rat" where
  "pow2 k = (if 0 \<le> k then 2 ^ nat k else 1 / 2 ^ nat (- k))"

text \<open>For \<open>x > 0\<close>, the \<open>e\<close> with \<open>2^e \<le> x < 2^(e+1)\<close>.\<close>

definition floor_log2 :: "rat \<Rightarrow> int" where
  "floor_log2 x =
     (let (a, b) = quotient_of x; k = bitlen a - bitlen b
      in if pow2 k \<le> x then k else k - 1)"

text \<open>
  \<open>binary64\<close> rounds a rational to the nearest binary64 value. With \<open>e\<close> the exponent of
  \<open>x\<close>, at least \<open>-1022\<close>, the values near \<open>x\<close> are the multiples of \<open>q = 2^(e-52)\<close>, and
  \<open>x\<close> goes to the nearest one, \<open>m * q\<close>, a tie to the even \<open>m\<close>. A result of \<open>2^1024\<close>
  or more is an infinity, and a result of zero keeps the sign of \<open>x\<close>. This is what the
  decimal text of a CSV cell becomes, and what every floating-point addition does to
  the exact sum.
\<close>

definition binary64 :: "rat \<Rightarrow> pyfloat" where
  "binary64 x =
     (if x = 0 then Finite 0
      else let e = max (floor_log2 \<bar>x\<bar>) (- 1022);
               q = pow2 (e - 52);
               m = round_half_even (x / q)
           in if 1024 \<le> e \<or> (e = 1023 \<and> \<bar>m\<bar> = 2 ^ 53)
                then (if 0 < x then PosInf else NegInf)
              else if m = 0 then (if 0 < x then Finite 0 else NegZero)
              else Finite (of_int m * q))"

text \<open>
  Addition of two floats. An exact sum of zero is positive zero, except for two negative
  zeros.
\<close>

fun fadd :: "pyfloat \<Rightarrow> pyfloat \<Rightarrow> pyfloat" where
  "fadd NaN b = NaN"
| "fadd a NaN = NaN"
| "fadd PosInf NegInf = NaN"
| "fadd NegInf PosInf = NaN"
| "fadd PosInf b = PosInf"
| "fadd a PosInf = PosInf"
| "fadd NegInf b = NegInf"
| "fadd a NegInf = NegInf"
| "fadd NegZero b = b"
| "fadd a NegZero = a"
| "fadd (Finite a) (Finite b) = (if a + b = 0 then Finite 0 else binary64 (a + b))"

subsection \<open>Fixed-point formatting\<close>

definition digit_char :: "int \<Rightarrow> char" where
  "digit_char d = ''0123456789'' ! nat (d mod 10)"

text \<open>\<^verbatim>\<open>str(n)\<close> for an integer \<open>n \<ge> 0\<close>: its decimal digits.\<close>

function str_digits :: "int \<Rightarrow> string" where
  "str_digits n =
     (if n < 10 then [digit_char n] else str_digits (n div 10) @ [digit_char (n mod 10)])"
  by pat_completeness auto
termination
  by (relation "measure nat") auto

declare str_digits.simps [simp del]

definition zfill :: "nat \<Rightarrow> string \<Rightarrow> string" where
  "zfill w s = replicate (w - length s) (CHR ''0'') @ s"

text \<open>
  A magnitude \<open>x \<ge> 0\<close> with \<open>p\<close> decimals: \<open>x\<close> is rounded to a multiple of \<open>10^-p\<close>, a
  tie to the even last digit, and printed as integer digits, point and \<open>p\<close> fraction
  digits.
\<close>

definition format_fixed :: "nat \<Rightarrow> rat \<Rightarrow> string" where
  "format_fixed p x =
     (let n = round_half_even (x * 10 ^ p)
      in str_digits (n div 10 ^ p)
         @ (if p = 0 then '''' else ''.'' @ zfill p (str_digits (n mod 10 ^ p))))"

text \<open>
  The format specification \<^verbatim>\<open>.pf\<close> of an f-string. The sign is the sign of the value
  before rounding (\<^verbatim>\<open>f"{-0.001:.2f}"\<close> is \<^verbatim>\<open>-0.00\<close>); NaN and the infinities print as
  words whatever the precision.
\<close>

fun format_f :: "nat \<Rightarrow> pyfloat \<Rightarrow> string" where
  "format_f p (Finite x) = (if x < 0 then ''-'' else '''') @ format_fixed p \<bar>x\<bar>"
| "format_f p NegZero = ''-'' @ format_fixed p 0"
| "format_f p PosInf = ''inf''"
| "format_f p NegInf = ''-inf''"
| "format_f p NaN = ''nan''"

text \<open>
  What ``rendered with exactly \<open>p\<close> decimal places'' means for a string: an optional
  minus sign, one or more digits, a point, and exactly \<open>p\<close> digits; nothing else, so no
  exponent.
\<close>

definition is_digit :: "char \<Rightarrow> bool" where
  "is_digit c = (c \<in> set ''0123456789'')"

definition fixed_decimals :: "nat \<Rightarrow> string \<Rightarrow> bool" where
  "fixed_decimals p s =
     (let u = (case s of [] \<Rightarrow> [] | c # cs \<Rightarrow> if c = CHR ''-'' then cs else s);
          ip = take (length u - Suc p) u;
          rest = drop (length u - Suc p) u
      in ip \<noteq> [] \<and> list_all is_digit ip
         \<and> length rest = Suc p \<and> take 1 rest = ''.'' \<and> list_all is_digit (drop 1 rest))"

subsection \<open>The rows\<close>

text \<open>
  A cell of a text column of the data frame: a string, or the missing value, which in
  such a column is the float NaN. \<^verbatim>\<open>pd.read_csv(csv_path)\<close> is called with its defaults,
  so a field of the file that is empty or is one of the texts pandas takes for a missing
  value (\<open>STR_NA_VALUES\<close>, the default \<^verbatim>\<open>na_values\<close>) is read as NaN, and any other field
  of a text column as the string it is.
\<close>

datatype text_cell = Text string | Missing

definition STR_NA_VALUES :: "string list" where
  "STR_NA_VALUES =
     ['''', ''#N/A'', ''#N/A N/A'', ''#NA'', ''-1.#IND'', ''-1.#QNAN'', ''-NaN'', ''-nan'',
      ''1.#IND'', ''1.#QNAN'', ''<NA>'', ''N/A'', ''NA'', ''NULL'', ''NaN'', ''None'',
      ''n/a'', ''nan'', ''null'']"

definition read_text :: "string \<Rightarrow> text_cell" where
  "read_text field = (if field \<in> set STR_NA_VALUES then Missing else Text field)"

text \<open>\<^verbatim>\<open>str(v)\<close> for a cell of a text column; \<^verbatim>\<open>str(float('nan'))\<close> is \<^verbatim>\<open>nan\<close>.\<close>

fun py_str :: "text_cell \<Rightarrow> string" where
  "py_str (Text s) = s"
| "py_str Missing = ''nan''"

text \<open>
  \<^verbatim>\<open>column.map(d)\<close> with a dictionary \<open>d\<close>: a value that is no key of \<open>d\<close>, the missing
  value among them, becomes NaN. \<^verbatim>\<open>a.fillna(b)\<close> puts the value of \<open>b\<close> where \<open>a\<close> is
  missing.
\<close>

fun series_map :: "(string \<rightharpoonup> string) \<Rightarrow> text_cell \<Rightarrow> text_cell" where
  "series_map d (Text s) = (case d s of Some v \<Rightarrow> Text v | None \<Rightarrow> Missing)"
| "series_map d Missing = Missing"

fun fillna :: "text_cell \<Rightarrow> text_cell \<Rightarrow> text_cell" where
  "fillna Missing b = b"
| "fillna (Text s) b = Text s"

text \<open>
  A row of the data frame read from the CSV, with the columns the function uses.
  \<open>Model\<close> is the column the file calls \<^verbatim>\<open>Configuration\<close>, which the function renames
  first. \<open>metric\<close> gives the numeric columns by their header, such as
  \<^verbatim>\<open>Correctness (Avg)\<close>. \<open>Model\<close> and \<open>Prompt\<close> are text columns and the others
  columns of floats, as \<^verbatim>\<open>read_csv\<close> makes them for a file of results.
\<close>

record row =
  Model :: text_cell
  Prompt :: text_cell
  Temperature :: pyfloat
  metric :: "string \<Rightarrow> pyfloat"

definition prompt_mapping :: "string \<rightharpoonup> string" where
  "prompt_mapping = map_of
     [(''current_user_template.txt'', ''P1''),
      (''previous_user_template.txt'', ''P2'')]"

definition model_name_items :: "(string \<times> string) list" where
  "model_name_items =
     [(''GENAI_SHARED_VERTEXAI_GOOGLE_GEMINI_15_FLASH'', ''Gemini 1.5 Flash''),
      (''GENAI_SHARED_VERTEXAI_GOOGLE_GEMINI_15_PRO'', ''Gemini 1.5 Pro''),
      (''GENAI_SHARED_VERTEXAI_GOOGLE_GEMINI_2_FLASH'', ''Gemini 2.0 Flash''),
      (''GENAI_SHARED_VERTEXAI_GOOGLE_GEMINI_2_FLASH_LITE'', ''Gemini 2.0 Flash Lite''),
      (''GENAI_SHARED_VERTEXAI_GOOGLE_GEMINI_25_PRO'', ''Gemini 2.5 Pro''),
      (''GENAI_SHARED_VERTEXAI_GOOGLE_GEMINI_25_FLASH'', ''Gemini 2.5 Flash''),
      (''GENAI_SHARED_VERTEXAI_ANTHROPIC_CLAUDE_35_SONNET'', ''Claude 3.5 Sonnet''),
      (''GENAI_SHARED_VERTEXAI_ANTHROPIC_CLAUDE_35_SONNET_V2'', ''Claude 3.5 Sonnet v2''),
      (''GENAI_SHARED_VERTEXAI_ANTHROPIC_CLAUDE_37_SONNET'', ''Claude 3.7 Sonnet''),
      (''GENAI_SHARED_VERTEXAI_ANTHROPIC_CLAUDE_4_SONNET'', ''Claude 4.0 Sonnet''),
      (''GENAI_SHARED_BEDROCK_ANTHROPIC_CLAUDE_3_HAIKU'', ''Claude 3 Haiku''),
      (''GENAI_SHARED_AZURE_OPENAI_GPT_4_OMNI'', ''GPT-4 Omni''),
      (''GENAI_SHARED_AZURE_OPENAI_GPT_4_OMNI_2024_20_11'', ''GPT-4 Omni (2024-11-20)''),
      (''GENAI_SHARED_AZURE_OPENAI_GPT_4_OMNI_MINI'', ''GPT-4 Omni Mini''),
      (''GENAI_SHARED_AZURE_OPENAI_GPT_41_NANO'', ''GPT-4.1 Nano''),
      (''GENAI_SHARED_AZURE_OPENAI_GPT_41'', ''GPT-4.1''),
      (''GENAI_SHARED_AZURE_OPENAI_O1_MINI'', ''O1 Mini''),
      (''GENAI_SHARED_AZURE_OPENAI_O1'', ''O1''),
      (''GENAI_SHARED_AZURE_OPENAI_O3'', ''O3''),
      (''GENAI_SHARED_AZURE_OPENAI_O3_MINI'', ''O3 Mini''),
      (''GENAI_SHARED_AZURE_OPENAI_O4_MINI'', ''O4 Mini''),
      (''GENAI_SHARED_AZURE_OPENAI_TEXT_ADA_002'', ''Ada-002''),
      (''GENAI_SHARED_AZURE_OPENAI_TEXT_EMBEDDING_003_LARGE'', ''Embedding-003 Large''),
      (''GENAI_SHARED_BEDROCK_AMAZON_TITAN_EMBED_TEXT_V1'', ''Titan Embed v1''),
      (''GENAI_SHARED_VERTEXAI_GOOGLE_TEXTEMBEDDING_GECKO'', ''Gecko'')]"

definition model_name_mapping :: "string \<rightharpoonup> string" where
  "model_name_mapping = map_of model_name_items"

subsection \<open>Step 0: keep the mapped prompts\<close>

text \<open>
  \<^verbatim>\<open>df = df[df['Prompt'].isin(prompt_mapping)]\<close> keeps the rows whose prompt is a key of
  the dictionary, in their order; a missing prompt is no key.
\<close>

definition isin_prompt_mapping :: "row \<Rightarrow> bool" where
  "isin_prompt_mapping r =
     (case Prompt r of Text s \<Rightarrow> prompt_mapping s \<noteq> None | Missing \<Rightarrow> False)"

text \<open>
  \<^verbatim>\<open>df['Prompt'] = df['Prompt'].map(prompt_mapping)\<close>. A value that is no key would
  become NaN; after the filter there is none.
\<close>

definition map_prompt :: "row \<Rightarrow> row" where
  "map_prompt r = r\<lparr>Prompt := series_map prompt_mapping (Prompt r)\<rparr>"

subsection \<open>Step 1: the display name and the sort\<close>

text \<open>
  The column \<^verbatim>\<open>MappedModel = df['Model'].map(model_name_mapping).fillna(df['Model'])\<close>.
  It is computed from \<open>Model\<close> alone and nothing changes \<open>Model\<close> afterwards, so the
  column is a function of the row. Where \<open>Model\<close> is missing, \<open>MappedModel\<close> is missing
  too.
\<close>

definition MappedModel :: "row \<Rightarrow> text_cell" where
  "MappedModel r = fillna (series_map model_name_mapping (Model r)) (Model r)"

text \<open>
  \<^verbatim>\<open>df.sort_values(['MappedModel', 'Prompt', 'Temperature'])\<close>, with the defaults
  \<^verbatim>\<open>ascending=True\<close> and \<^verbatim>\<open>na_position='last'\<close>. On several columns pandas sorts by a
  stable lexicographic sort of the columns' ranks, a missing value ranking after every
  value of its column. Strings compare by code points, which is the order of their
  bytes: \<open>text_rank\<close> gives each cell of a text column its place. Floats compare by
  value, the two zeros being equal: \<open>float_rank\<close> gives each float its place. Pairs are
  compared first component first. \<open>sort_key\<close> is the stable insertion sort of the list
  library.
\<close>

fun text_rank :: "text_cell \<Rightarrow> nat \<times> string" where
  "text_rank (Text s) = (0, s)"
| "text_rank Missing = (1, [])"

fun float_rank :: "pyfloat \<Rightarrow> nat \<times> rat" where
  "float_rank NegInf = (0, 0)"
| "float_rank (Finite x) = (1, x)"
| "float_rank NegZero = (1, 0)"
| "float_rank PosInf = (2, 0)"
| "float_rank NaN = (3, 0)"

definition sort_columns ::
    "row \<Rightarrow> (nat \<times> string) \<times> (nat \<times> string) \<times> nat \<times> rat" where
  "sort_columns r =
     (text_rank (MappedModel r), text_rank (Prompt r), float_rank (Temperature r))"

definition sort_values :: "row list \<Rightarrow> row list" where
  "sort_values df = sort_key sort_columns df"

text \<open>The data frame after steps 0 and 1: the rows of the table, in the order printed.\<close>

definition table_rows :: "row list \<Rightarrow> row list" where
  "table_rows df = sort_values (map map_prompt (filter isin_prompt_mapping df))"

subsection \<open>Step 2: the metric columns and the total\<close>

definition metric_order :: "(string \<times> string) list" where
  "metric_order =
     [(''Answer Relevancy'', ''AR''),
      (''Correctness'', ''C''),
      (''Faithfulness'', ''F''),
      (''Hallucination'', ''H''),
      (''Specific Information Accuracy'', ''SIA'')]"

definition metrics :: "string list" where
  "metrics = map fst metric_order"

definition abbrevs' :: "string list" where
  "abbrevs' = map snd metric_order"

definition avg_cols :: "string list" where
  "avg_cols = map (\<lambda>m. m @ '' (Avg)'') metrics"

definition gpt4o_cols :: "string list" where
  "gpt4o_cols = map (\<lambda>m. m @ '' (GPT-4o)'') metrics"

definition claude_cols :: "string list" where
  "claude_cols = map (\<lambda>m. m @ '' (Sonnet3.5)'') metrics"

text \<open>
  The column \<^verbatim>\<open>Sum = df[avg_cols].sum(axis=1)\<close>. pandas sums with \<^verbatim>\<open>skipna=True\<close>: a
  NaN counts as zero, and the values of the row are then added in floating point, in
  the order of the columns, to the positive zero the sum starts from.
\<close>

definition nan_to_zero :: "pyfloat \<Rightarrow> pyfloat" where
  "nan_to_zero v = (if v = NaN then Finite 0 else v)"

definition float_sum :: "pyfloat list \<Rightarrow> pyfloat" where
  "float_sum vs = foldl fadd (Finite 0) (map nan_to_zero vs)"

definition Sum_column :: "row \<Rightarrow> pyfloat" where
  "Sum_column r = float_sum (map (metric r) avg_cols)"

subsection \<open>Step 3: the LaTeX text\<close>

definition header_abbr :: string where
  "header_abbr = str_join '' & '' (map (\<lambda>a. tex ''textbf{'' @ a @ ''}'') abbrevs')"

definition unlines :: "string list \<Rightarrow> string" where
  "unlines ls = concat (map (\<lambda>l. l @ [newline]) ls)"

text \<open>The text before the rows, line by line; \<open>tex s\<close> is \<open>s\<close> after a backslash.\<close>

definition latex_header :: string where
  "latex_header = unlines
     ['''',
      ''% Requires in preamble:'',
      ''%   '' @ tex ''usepackage{lscape,longtable,booktabs,adjustbox}  % adjustbox only if you use method 2'',
      tex ''begin{landscape}'',
      ''% ==== Method 1: smaller font & tighter columns ===='',
      tex ''small'',
      tex ''setlength{'' @ tex ''tabcolsep}{4pt}       % default is ~6pt'',
      tex ''renewcommand{'' @ tex ''arraystretch}{0.9}  % tighten row height'',
      tex ''setlength{'' @ tex ''LTleft}{0pt}          % left align longtable'',
      tex ''setlength{'' @ tex ''LTright}{0pt}         % right align longtable'',
      '''',
      ''% ==== Method 2 (optional): force to 90% of width ===='',
      tex ''begin{adjustbox}{width=0.9'' @ tex ''textwidth,center}'',
      '''',
      tex ''begin{longtable}{|l|c|c|ccccc|c|ccccc|ccccc|}'',
      tex ''caption{DeepEval Generation Quality Benchmark Results (Reordered)} '' @ tex '''' @ tex '''',
      tex ''toprule'',
      tex ''textbf{Model} & '' @ tex ''textbf{Prompt} & '' @ tex ''textbf{Temp} & '' @ tex ''multicolumn{5}{c|}{'' @ tex ''textbf{Avg. Scores}} & '' @ tex ''textbf{Total} & '' @ tex ''multicolumn{5}{c|}{'' @ tex ''textbf{GPT-4o}} & '' @ tex ''multicolumn{5}{c|}{'' @ tex ''textbf{Claude 3.5}} '' @ tex '''' @ tex '''',
      '' & & & '' @ header_abbr @ '' & & '' @ header_abbr @ '' & '' @ header_abbr @ '' '' @ tex '''' @ tex '''',
      tex ''midrule'',
      tex ''endfirsthead'',
      '''',
      tex ''multicolumn{19}{c}{'' @ tex ''tablename'' @ tex '' '' @ tex ''thetable{} -- continued from previous page} '' @ tex '''' @ tex '''',
      tex ''midrule'',
      tex ''textbf{Model} & '' @ tex ''textbf{Prompt} & '' @ tex ''textbf{Temp} & '' @ header_abbr @ '' & & '' @ header_abbr @ '' & '' @ header_abbr @ '' '' @ tex '''' @ tex '''',
      tex ''midrule'',
      tex ''endhead'',
      '''',
      tex ''midrule'',
      tex ''multicolumn{19}{r}{Continued on next page} '' @ tex '''' @ tex '''',
      tex ''endfoot'',
      '''',
      tex ''bottomrule'',
      tex ''endlastfoot'']"

definition latex_footer :: string where
  "latex_footer = unlines
     [tex ''end{longtable}'',
      tex ''end{adjustbox}      % close Method 2'',
      tex ''end{landscape}'']"

text \<open>
  The cells of one row, named as the loop body names them, and the line they make.
  The label is \<^verbatim>\<open>str(r['MappedModel'])\<close> with its underscores escaped, and the prompt
  code is put into the f-string as \<^verbatim>\<open>{p}\<close>, which formats a string or a NaN as
  \<^verbatim>\<open>str\<close> does.
\<close>

definition cell_m :: "row \<Rightarrow> string" where
  "cell_m r = str_replace (py_str (MappedModel r)) ''_'' (tex ''_'')"

definition cell_p :: "row \<Rightarrow> string" where
  "cell_p r = py_str (Prompt r)"

definition cell_t :: "row \<Rightarrow> string" where
  "cell_t r = (if notna (Temperature r) then format_f 1 (Temperature r) else ''-'')"

definition avg_vals :: "row \<Rightarrow> string" where
  "avg_vals r = str_join '' & '' (map (\<lambda>c. format_f 2 (metric r c)) avg_cols)"

definition g4o_vals :: "row \<Rightarrow> string" where
  "g4o_vals r = str_join '' & '' (map (\<lambda>c. format_f 2 (metric r c)) gpt4o_cols)"

definition claude_vals :: "row \<Rightarrow> string" where
  "claude_vals r = str_join '' & '' (map (\<lambda>c. format_f 2 (metric r c)) claude_cols)"

definition cell_total :: "row \<Rightarrow> string" where
  "cell_total r = format_f 2 (Sum_column r)"

definition latex_row :: "row \<Rightarrow> string" where
  "latex_row r =
     cell_m r @ '' & '' @ cell_p r @ '' & '' @ cell_t r @ '' & '' @ avg_vals r
     @ '' & '' @ cell_total r @ '' & '' @ g4o_vals r @ '' & '' @ claude_vals r
     @ '' '' @ tex '''' @ tex '''' @ [newline]"

subsection \<open>\<^verbatim>\<open>generate_full_latex_table\<close>\<close>

text \<open>
  Reading the file is the one step that depends on the outside: \<^verbatim>\<open>pd.read_csv\<close> either
  raises or gives the data frame, and that outcome is an argument here. The function
  catches both kinds of exception and returns a message in place of the table, so
  every branch ends in \<^verbatim>\<open>return\<close> with a string (\<open>Inr\<close>); \<open>Inl\<close> would be an exception
  leaving the function.
\<close>

datatype py_exception =
    FileNotFoundError
  | OtherException string

definition generate_full_latex_table ::
    "string \<Rightarrow> py_exception + row list \<Rightarrow> py_exception + string" where
  "generate_full_latex_table csv_path read_csv =
     (case read_csv of
        Inl FileNotFoundError \<Rightarrow>
          Inr (''Error: The file at '' @ csv_path @ '' was not found.'')
      | Inl (OtherException e) \<Rightarrow>
          Inr (''An error occurred while reading the CSV file: '' @ e)
      | Inr df \<Rightarrow>
          Inr (latex_header @ concat (map latex_row (table_rows df)) @ latex_footer))"

section \<open>Properties of the suite factory\<close>

text \<open>
  For a policy that is a float or a dictionary, \<open>t key dflt\<close> being the threshold it
  resolves to, \<^verbatim>\<open>get_metrics\<close> returns a suite exactly when each of the five
  constructor calls returns, and the suite is then the five objects returned, in the
  order of the calls; an exception that leaves it was raised by one of the calls.
\<close>

lemma get_metrics_calls:
  fixes deepeval :: "'m metric_call \<Rightarrow> 'e + 'obj" and m :: "'m option" and ir :: bool
  assumes "th = ThFloat s \<and> t = (\<lambda>key dflt. s)
         \<or> th = ThDict d \<and> t = (\<lambda>key dflt. case d key of Some v \<Rightarrow> v | None \<Rightarrow> dflt)"
  defines "calls \<equiv>
     [GEval ''Correctness'' (t ''Correctness'' 0.9) correctness_criteria correctness_steps
        [INPUT, ACTUAL_OUTPUT, EXPECTED_OUTPUT] m False,
      GEval ''Specific Information Accuracy'' (t ''Specific Information Accuracy'' 0.9)
        specific_info_criteria specific_info_steps
        [INPUT, ACTUAL_OUTPUT, EXPECTED_OUTPUT, CONTEXT] m False,
      AnswerRelevancyMetric (t ''Answer Relevancy'' 0.9) m ir,
      FaithfulnessMetric (t ''Faithfulness'' 0.9) m ir,
      HallucinationMetric (t ''Hallucination'' 0.8) m ir]"
  shows "get_metrics deepeval m th ir = Inr suite \<longleftrightarrow> map deepeval calls = map Inr suite"
    and "get_metrics deepeval m th ir = Inl e \<Longrightarrow>
           \<exists>c \<in> set calls. \<exists>x. deepeval c = Inl x \<and> e = Raised x"
proof -
  have th: "threshold_for th key dflt = (Inr (t key dflt) :: 'e get_metrics_exception + real)"
    for key dflt
    using assms(1) by (auto simp: threshold_for_def dict_get_def)
  show "get_metrics deepeval m th ir = Inr suite \<longleftrightarrow> map deepeval calls = map Inr suite"
    unfolding get_metrics_def th calls_def
    by (auto simp: and_then_def construct_def Cons_eq_map_conv split: sum.splits)
  show "\<exists>c \<in> set calls. \<exists>x. deepeval c = Inl x \<and> e = Raised x"
    if "get_metrics deepeval m th ir = Inl e"
    using that unfolding get_metrics_def th calls_def
    by (auto simp: and_then_def construct_def split: sum.splits)
qed

text \<open>
  C1. The claim speaks of every scalar policy, and an integer is one: it fails there.
  With \<^verbatim>\<open>thresholds=1\<close>, or any other \<^verbatim>\<open>int\<close>, the call raises \<^verbatim>\<open>AttributeError\<close> while
  the threshold of the first check is being resolved, whatever the library, the backend
  and the flag: no constructor is called and no suite is returned, where the claim
  promises five checks with the threshold 1.
\<close>

theorem int_threshold_raises_AttributeError:
  "get_metrics deepeval m (ThInt n) ir = Inl AttributeError"
  by (simp add: get_metrics_def threshold_for_def and_then_def)




text \<open>
  C5, as the code has it. \<^verbatim>\<open>get_metrics\<close> never looks at the value of a threshold. For
  every policy that is a float or a dictionary, with values inside or outside the
  interval from 0 to 1, each constructor is called with the threshold the policy
  resolves to for it, unchanged: the scalar itself, or the dictionary's entry under the
  check's name and else the fallback. The suite is returned exactly when the five calls
  return, and an exception that leaves the function is one that a constructor raised:
  the function has no failure of its own for such a policy, and none called
  \<^verbatim>\<open>InvalidThreshold\<close>.
\<close>

theorem get_metrics_no_range_check:
  fixes deepeval :: "'m metric_call \<Rightarrow> 'e + 'obj"
  assumes "th = ThFloat s \<and> t = (\<lambda>key dflt. s)
         \<or> th = ThDict d \<and> t = (\<lambda>key dflt. case d key of Some v \<Rightarrow> v | None \<Rightarrow> dflt)"
  shows "(\<forall>suite. get_metrics deepeval m th ir = Inr suite \<longleftrightarrow>
            [deepeval (GEval ''Correctness'' (t ''Correctness'' 0.9) correctness_criteria
               correctness_steps [INPUT, ACTUAL_OUTPUT, EXPECTED_OUTPUT] m False),
             deepeval (GEval ''Specific Information Accuracy''
               (t ''Specific Information Accuracy'' 0.9) specific_info_criteria
               specific_info_steps [INPUT, ACTUAL_OUTPUT, EXPECTED_OUTPUT, CONTEXT] m False),
             deepeval (AnswerRelevancyMetric (t ''Answer Relevancy'' 0.9) m ir),
             deepeval (FaithfulnessMetric (t ''Faithfulness'' 0.9) m ir),
             deepeval (HallucinationMetric (t ''Hallucination'' 0.8) m ir)]
            = map Inr suite)
     \<and> (\<forall>e. get_metrics deepeval m th ir = Inl e \<longrightarrow>
          (\<exists>c x. deepeval c = Inl x \<and> e = Raised x))
     \<and> get_metrics deepeval m th ir \<noteq> Inl AttributeError"
proof (intro conjI allI impI)
  fix suite
  show "get_metrics deepeval m th ir = Inr suite \<longleftrightarrow>
            [deepeval (GEval ''Correctness'' (t ''Correctness'' 0.9) correctness_criteria
               correctness_steps [INPUT, ACTUAL_OUTPUT, EXPECTED_OUTPUT] m False),
             deepeval (GEval ''Specific Information Accuracy''
               (t ''Specific Information Accuracy'' 0.9) specific_info_criteria
               specific_info_steps [INPUT, ACTUAL_OUTPUT, EXPECTED_OUTPUT, CONTEXT] m False),
             deepeval (AnswerRelevancyMetric (t ''Answer Relevancy'' 0.9) m ir),
             deepeval (FaithfulnessMetric (t ''Faithfulness'' 0.9) m ir),
             deepeval (HallucinationMetric (t ''Hallucination'' 0.8) m ir)]
            = map Inr suite"
    using get_metrics_calls(1) [OF assms, of deepeval m ir suite] by simp
next
  fix e
  assume "get_metrics deepeval m th ir = Inl e"
  from get_metrics_calls(2) [OF assms this]
  show "\<exists>c x. deepeval c = Inl x \<and> e = Raised x" by auto
next
  show "get_metrics deepeval m th ir \<noteq> Inl AttributeError"
    using get_metrics_calls(2) [OF assms, of deepeval m ir AttributeError] by auto
qed

theorem get_metrics_no_range_check_witness:
  "get_metrics (Inr :: string metric_call \<Rightarrow> string + string metric_call)
     None (ThDict [''Hallucination'' \<mapsto> - 1, ''Correctness'' \<mapsto> 2]) True
   = Inr [GEval ''Correctness'' 2 correctness_criteria correctness_steps
            [INPUT, ACTUAL_OUTPUT, EXPECTED_OUTPUT] None False,
          GEval ''Specific Information Accuracy'' (9 / 10) specific_info_criteria
            specific_info_steps [INPUT, ACTUAL_OUTPUT, EXPECTED_OUTPUT, CONTEXT] None False,
          AnswerRelevancyMetric (9 / 10) None True,
          FaithfulnessMetric (9 / 10) None True,
          HallucinationMetric (- 1) None True]"
proof -
  let ?d = "[''Hallucination'' \<mapsto> - 1, ''Correctness'' \<mapsto> 2] :: string \<rightharpoonup> real"
  let ?t = "\<lambda>(key :: string) (dflt :: real). case ?d key of Some v \<Rightarrow> v | None \<Rightarrow> dflt"
  have "ThDict ?d = ThFloat 0 \<and> ?t = (\<lambda>key dflt. 0) \<or> ThDict ?d = ThDict ?d \<and> ?t = ?t"
    by simp
  from get_metrics_no_range_check [OF this,
      of "Inr :: string metric_call \<Rightarrow> string + string metric_call" None True]
  show ?thesis by simp
qed

text \<open>
  The claim as the specification states it fails: with the scalar 1.5, outside the
  interval, and a library whose constructors accept what they are given, the five
  constructors are called with the threshold 1.5 and the suite of five comes back.
\<close>

theorem out_of_range_threshold_is_accepted:
  "get_metrics (Inr :: string metric_call \<Rightarrow> string + string metric_call)
     (Some ''gpt-4o'') (ThFloat (15 / 10)) False
   = Inr [GEval ''Correctness'' (15 / 10) correctness_criteria correctness_steps
            [INPUT, ACTUAL_OUTPUT, EXPECTED_OUTPUT] (Some ''gpt-4o'') False,
          GEval ''Specific Information Accuracy'' (15 / 10) specific_info_criteria
            specific_info_steps [INPUT, ACTUAL_OUTPUT, EXPECTED_OUTPUT, CONTEXT]
            (Some ''gpt-4o'') False,
          AnswerRelevancyMetric (15 / 10) (Some ''gpt-4o'') False,
          FaithfulnessMetric (15 / 10) (Some ''gpt-4o'') False,
          HallucinationMetric (15 / 10) (Some ''gpt-4o'') False]
   \<and> \<not> (0 \<le> (15 / 10 :: real) \<and> (15 / 10 :: real) \<le> 1)"
  by (simp add: get_metrics_def threshold_for_def and_then_def construct_def)

section \<open>Properties of the report generator\<close>

subsection \<open>Replacing one character\<close>

lemma str_replace_char:
  "str_replace s [a] new = concat (map (\<lambda>c. if c = a then new else [c]) s)"
  by (induction s) simp_all

subsection \<open>Digits and fixed-point strings\<close>

lemma is_digit_digit_char: "is_digit (digit_char d)"
proof -
  have "nat (d mod 10) < length ''0123456789''" by simp
  then have "''0123456789'' ! nat (d mod 10) \<in> set ''0123456789''" by (rule nth_mem)
  then show ?thesis by (simp only: is_digit_def digit_char_def)
qed

lemma str_digits_not_Nil: "str_digits n \<noteq> []"
  by (subst str_digits.simps) simp

lemma str_digits_digits: "list_all is_digit (str_digits n)"
proof (induction n rule: str_digits.induct)
  case (1 n)
  show ?case
  proof (cases "n < 10")
    case True
    then show ?thesis by (subst str_digits.simps) (simp add: is_digit_digit_char)
  next
    case False
    with "1" show ?thesis by (subst str_digits.simps) (simp add: is_digit_digit_char)
  qed
qed

lemma length_str_digits: "0 < p \<Longrightarrow> n < 10 ^ p \<Longrightarrow> length (str_digits n) \<le> p"
proof (induction n arbitrary: p rule: str_digits.induct)
  case (1 n)
  show ?case
  proof (cases "n < 10")
    case True
    with "1.prems" show ?thesis by (subst str_digits.simps) simp
  next
    case False
    obtain q where p: "p = Suc q" using "1.prems"(1) by (cases p) auto
    have "q \<noteq> 0"
    proof
      assume "q = 0"
      with p "1.prems"(2) False show False by simp
    qed
    moreover have "m div 10 < y" if "m < 10 * y" for m y :: int
      using that by arith
    then have "n div 10 < 10 ^ q"
      using "1.prems"(2) p by simp
    ultimately have "length (str_digits (n div 10)) \<le> q"
      using "1.IH" [OF False, of q] by simp
    with False p show ?thesis by (subst str_digits.simps) simp
  qed
qed

lemma zfill_length: "length s \<le> w \<Longrightarrow> length (zfill w s) = w"
  by (simp add: zfill_def)

lemma is_digit_zero: "is_digit (CHR ''0'')"
  by (simp add: is_digit_def)

lemma zfill_digits: "list_all is_digit s \<Longrightarrow> list_all is_digit (zfill w s)"
  by (auto simp: zfill_def list_all_iff is_digit_zero)

lemma fixed_decimals_unsigned:
  assumes "ip \<noteq> []" "list_all is_digit ip" "length fp = p" "list_all is_digit fp"
  shows "fixed_decimals p (ip @ ''.'' @ fp)"
proof -
  obtain c cs where ip: "ip = c # cs" using assms(1) by (cases ip) auto
  with assms(2) have "is_digit c" by simp
  then have c: "c \<noteq> CHR ''-''" by (auto simp: is_digit_def)
  have len: "length (ip @ ''.'' @ fp) - Suc p = length ip" using assms(3) by simp
  have u: "(case ip @ ''.'' @ fp of [] \<Rightarrow> [] | d # ds \<Rightarrow> if d = CHR ''-'' then ds else ip @ ''.'' @ fp)
             = ip @ ''.'' @ fp"
    using c ip by simp
  show ?thesis
    unfolding fixed_decimals_def u Let_def len
    using assms by simp
qed

lemma fixed_decimals_signed:
  assumes "ip \<noteq> []" "list_all is_digit ip" "length fp = p" "list_all is_digit fp"
  shows "fixed_decimals p (''-'' @ ip @ ''.'' @ fp)"
proof -
  have len: "length (ip @ ''.'' @ fp) - Suc p = length ip" using assms(3) by simp
  have u: "(case ''-'' @ ip @ ''.'' @ fp of [] \<Rightarrow> [] | d # ds \<Rightarrow> if d = CHR ''-'' then ds else ''-'' @ ip @ ''.'' @ fp)
             = ip @ ''.'' @ fp"
    by simp
  show ?thesis
    unfolding fixed_decimals_def u Let_def len
    using assms by simp
qed

lemma fixed_decimals_format_fixed:
  assumes "0 < p"
  shows "fixed_decimals p (format_fixed p x)"
    and "fixed_decimals p (CHR ''-'' # format_fixed p x)"
proof -
  define n where "n = round_half_even (x * 10 ^ p)"
  define ip where "ip = str_digits (n div 10 ^ p)"
  define fp where "fp = zfill p (str_digits (n mod 10 ^ p))"
  have ip: "ip \<noteq> []" "list_all is_digit ip"
    by (simp_all add: ip_def str_digits_not_Nil str_digits_digits)
  have "length (str_digits (n mod 10 ^ p)) \<le> p"
    using assms by (intro length_str_digits) simp_all
  then have fp: "length fp = p" "list_all is_digit fp"
    by (simp_all add: fp_def zfill_length zfill_digits str_digits_digits)
  have eq: "format_fixed p x = ip @ ''.'' @ fp"
    using assms by (simp add: format_fixed_def n_def ip_def fp_def Let_def)
  show "fixed_decimals p (format_fixed p x)"
    using fixed_decimals_unsigned [OF ip fp] by (simp add: eq)
  have "fixed_decimals p (''-'' @ ip @ ''.'' @ fp)"
    by (rule fixed_decimals_signed [OF ip fp])
  then show "fixed_decimals p (CHR ''-'' # format_fixed p x)"
    by (simp add: eq)
qed

lemma fixed_decimals_format_f:
  assumes "0 < p" and "is_finite v"
  shows "fixed_decimals p (format_f p v)"
proof (cases v)
  case (Finite x)
  then show ?thesis
    by (simp add: fixed_decimals_format_fixed [OF assms(1)])
next
  case NegZero
  then show ?thesis
    by (simp add: fixed_decimals_format_fixed [OF assms(1)])
qed (use assms(2) in \<open>simp_all add: is_finite_def\<close>)

lemma fixed_decimals_last_digit:
  assumes "fixed_decimals p s" and "0 < p"
  shows "s \<noteq> [] \<and> is_digit (last s)"
proof -
  define u where "u = (case s of [] \<Rightarrow> [] | c # cs \<Rightarrow> if c = CHR ''-'' then cs else s)"
  define rest where "rest = drop (length u - Suc p) u"
  have rest: "length rest = Suc p" "list_all is_digit (drop 1 rest)"
    using assms(1) by (simp_all add: fixed_decimals_def Let_def u_def rest_def)
  then have "drop 1 rest \<noteq> []" using assms(2) by auto
  with rest(2) have "is_digit (last (drop 1 rest))"
    by (metis last_in_set list_all_iff)
  moreover have "last (drop 1 rest) = last rest"
    using \<open>drop 1 rest \<noteq> []\<close> by (metis last_drop drop_eq_Nil not_le)
  moreover have "rest \<noteq> []" using rest(1) by auto
  then have "last rest = last u" "u \<noteq> []"
    unfolding rest_def by (auto simp: last_drop)
  moreover have "last u = last s \<and> s \<noteq> []"
    using \<open>u \<noteq> []\<close> unfolding u_def by (cases s) (auto split: if_splits)
  ultimately show ?thesis by simp
qed

lemma not_fixed_decimals_nan: "\<not> fixed_decimals 2 ''nan''"
proof
  assume "fixed_decimals 2 ''nan''"
  then have "is_digit (last ''nan'')"
    using fixed_decimals_last_digit [of 2 "''nan''"] by simp
  then show False by (simp add: is_digit_def)
qed


subsection \<open>The float model\<close>

lemma pow2_power_int: "pow2 k = 2 powi k"
  by (simp add: pow2_def power_int_def field_simps)

lemma bitlen_power_int_bounds:
  assumes "0 < a"
  shows "(2::rat) powi (bitlen a - 1) \<le> of_int a" and "of_int a < (2::rat) powi (bitlen a)"
proof -
  have pos: "1 \<le> bitlen a" using assms by (simp add: bitlen_alt_def)
  have "(2::int) ^ nat (bitlen a - 1) \<le> a" and "a < 2 ^ nat (bitlen a)"
    using bitlen_bounds [OF assms] by simp_all
  then have "(of_int ((2::int) ^ nat (bitlen a - 1)) :: rat) \<le> of_int a"
    and "(of_int a :: rat) < of_int (2 ^ nat (bitlen a))"
    by (simp_all only: of_int_le_iff of_int_less_iff)
  then show "(2::rat) powi (bitlen a - 1) \<le> of_int a" and "of_int a < (2::rat) powi (bitlen a)"
    using pos by (simp_all add: power_int_nonneg_exp)
qed

lemma floor_log2_bounds:
  assumes "0 < x"
  shows "pow2 (floor_log2 x) \<le> x \<and> x < pow2 (floor_log2 x + 1)"
proof -
  obtain a b where ab: "quotient_of x = (a, b)" by (cases "quotient_of x")
  then have b: "0 < b" and x: "x = of_int a / of_int b"
    using quotient_of_denom_pos [OF ab] quotient_of_div [OF ab] by simp_all
  from assms x b have a: "0 < a" by (simp add: zero_less_divide_iff)
  define k where "k = bitlen a - bitlen b"
  note la = bitlen_power_int_bounds [OF a] and lb = bitlen_power_int_bounds [OF b]
  have bpos: "(0::rat) < of_int b" and apos: "(0::rat) < of_int a" using a b by simp_all
  have "(2::rat) powi (k - 1) = 2 powi (bitlen a - 1) / 2 powi (bitlen b)"
    by (simp add: k_def power_int_diff)
  also have "\<dots> \<le> of_int a / 2 powi (bitlen b)"
    using la(1) by (simp add: divide_right_mono)
  also have "\<dots> \<le> of_int a / of_int b"
    using lb(2) apos bpos by (simp add: frac_le)
  finally have lo: "pow2 (k - 1) \<le> x" by (simp add: pow2_power_int x)
  have "of_int a / of_int b < 2 powi (bitlen a) / (of_int b :: rat)"
    using la(2) bpos by (simp add: divide_strict_right_mono)
  also have "\<dots> \<le> 2 powi (bitlen a) / 2 powi (bitlen b - 1)"
    using lb(1) bpos by (intro divide_left_mono) (simp_all add: zero_less_mult_iff)
  also have "\<dots> = 2 powi (k + 1)"
    by (simp add: k_def power_int_diff power_int_add)
  finally have hi: "x < pow2 (k + 1)" by (simp add: pow2_power_int x)
  show ?thesis
    using lo hi ab by (auto simp: floor_log2_def k_def Let_def not_le)
qed

lemma round_half_even_nearest: "\<bar>of_int (round_half_even z) - z\<bar> \<le> 1 / 2"
proof -
  have "of_int \<lfloor>z\<rfloor> \<le> z" "z < of_int \<lfloor>z\<rfloor> + 1" by linarith+
  then show ?thesis
    by (auto simp: round_half_even_def Let_def abs_le_iff)
qed

lemma pow2_pos: "0 < pow2 k"
  by (simp add: pow2_def)

lemma pow2_half: "pow2 (k - 1) = pow2 k / 2"
  by (simp add: pow2_power_int power_int_diff)

text \<open>
  A finite result of \<open>binary64\<close> is a multiple of the spacing \<open>q\<close> at the argument, and no
  further from the argument than half of it.
\<close>

lemma binary64_nearest:
  assumes "binary64 x = Finite y" and "x \<noteq> 0"
  defines "q \<equiv> pow2 (max (floor_log2 \<bar>x\<bar>) (- 1022) - 52)"
  shows "y = of_int (round_half_even (x / q)) * q" and "\<bar>y - x\<bar> \<le> q / 2"
proof -
  show y: "y = of_int (round_half_even (x / q)) * q"
    using assms(1,2) unfolding binary64_def q_def Let_def
    by (simp split: if_splits)
  have q: "0 < q" by (simp add: q_def pow2_pos)
  have "y - x = (of_int (round_half_even (x / q)) - x / q) * q"
    using q by (simp add: y left_diff_distrib)
  then have "\<bar>y - x\<bar> = \<bar>of_int (round_half_even (x / q)) - x / q\<bar> * q"
    using q by (simp add: abs_mult)
  also have "\<dots> \<le> 1 / 2 * q"
    using q round_half_even_nearest [of "x / q"] by (intro mult_right_mono) simp_all
  finally show "\<bar>y - x\<bar> \<le> q / 2" by simp
qed

text \<open>The predicate \<open>fixed_decimals\<close>, read as a decomposition of the string.\<close>

lemma fixed_decimals_iff:
  "fixed_decimals p s \<longleftrightarrow>
     (\<exists>sgn ip fp. s = sgn @ ip @ ''.'' @ fp \<and> (sgn = [] \<or> sgn = ''-'')
        \<and> ip \<noteq> [] \<and> list_all is_digit ip \<and> length fp = p \<and> list_all is_digit fp)"
proof
  assume fd: "fixed_decimals p s"
  define u where "u = (case s of [] \<Rightarrow> [] | c # cs \<Rightarrow> if c = CHR ''-'' then cs else s)"
  define ip where "ip = take (length u - Suc p) u"
  define rest where "rest = drop (length u - Suc p) u"
  have props: "ip \<noteq> []" "list_all is_digit ip" "length rest = Suc p" "take 1 rest = ''.''"
    "list_all is_digit (drop 1 rest)"
    using fd by (simp_all add: fixed_decimals_def Let_def u_def ip_def rest_def)
  have u: "u = ip @ rest" by (simp add: ip_def rest_def)
  have rest: "rest = ''.'' @ drop 1 rest"
    using props(4) append_take_drop_id [of 1 rest] by simp
  have s: "s = u \<or> s = ''-'' @ u"
    unfolding u_def by (cases s) auto
  have "length (drop 1 rest) = p" using props(3) by simp
  with s props(1,2,5) show "\<exists>sgn ip fp. s = sgn @ ip @ ''.'' @ fp \<and> (sgn = [] \<or> sgn = ''-'')
        \<and> ip \<noteq> [] \<and> list_all is_digit ip \<and> length fp = p \<and> list_all is_digit fp"
    by (metis u rest append_Nil)
next
  assume "\<exists>sgn ip fp. s = sgn @ ip @ ''.'' @ fp \<and> (sgn = [] \<or> sgn = ''-'')
        \<and> ip \<noteq> [] \<and> list_all is_digit ip \<and> length fp = p \<and> list_all is_digit fp"
  then show "fixed_decimals p s"
    using fixed_decimals_unsigned fixed_decimals_signed by (metis append_Nil)
qed

text \<open>Known values: decimal texts, sums and formats as Python gives them.\<close>

lemma binary64_examples:
  "binary64 (1 / 10) = Finite (3602879701896397 / 36028797018963968)"
  "binary64 (7 / 10) = Finite (3152519739159347 / 4503599627370496)"
  "binary64 (1 / 2) = Finite (1 / 2)"
  "fadd (binary64 (1 / 10)) (binary64 (2 / 10)) = Finite (1351079888211149 / 4503599627370496)"
  by code_simp+

lemma binary64_examples2:
  "fadd (Finite 1) (Finite (1 / 9007199254740992)) = Finite 1"
  "fadd (Finite 1) (Finite (3 / 9007199254740992)) = Finite (1 + 1 / 2251799813685248)"
  by code_simp+

lemma format_f_examples:
  "format_f 2 (Finite (1 / 8)) = ''0.12''"
  "format_f 2 (Finite (3 / 8)) = ''0.38''"
  "format_f 2 (binary64 (1005 / 1000)) = ''1.00''"
  "format_f 2 (Finite (- 1 / 1000)) = ''-0.00''"
  "format_f 1 (binary64 (25 / 100)) = ''0.2''"
  "format_f 1 (Finite 0) = ''0.0''"
  "format_f 2 (Finite (1999 / 1000)) = ''2.00''"
  by code_simp+

lemma format_f_examples2:
  "format_f 2 (Finite 1234) = ''1234.00''"
  "format_f 2 (Finite (12345678901234567890 + 1 / 3)) = ''12345678901234567890.33''"
  by code_simp+

subsection \<open>The sort\<close>

lemma sort_values_sorted: "sorted (map sort_columns (sort_values df))"
  by (simp add: sort_values_def)


lemma mset_sort_values: "mset (sort_values df) = mset df"
  by (simp add: sort_values_def)

lemma mset_table_rows:
  "mset (table_rows df) = image_mset map_prompt (filter_mset isin_prompt_mapping (mset df))"
  by (simp add: table_rows_def mset_sort_values)

lemma float_rank_NaN_le: "float_rank NaN \<le> float_rank t \<Longrightarrow> t = NaN"
  by (cases t) (simp_all add: less_eq_prod_def)





subsection \<open>The rows of the table\<close>

lemma isin_prompt_mapping_iff:
  "isin_prompt_mapping r \<longleftrightarrow>
     Prompt r = Text ''current_user_template.txt''
     \<or> Prompt r = Text ''previous_user_template.txt''"
  by (cases "Prompt r") (auto simp: isin_prompt_mapping_def prompt_mapping_def)

lemma map_prompt_current:
  "Prompt r = Text ''current_user_template.txt'' \<Longrightarrow> map_prompt r = r\<lparr>Prompt := Text ''P1''\<rparr>"
  by (simp add: map_prompt_def prompt_mapping_def)

lemma map_prompt_previous:
  "Prompt r = Text ''previous_user_template.txt'' \<Longrightarrow> map_prompt r = r\<lparr>Prompt := Text ''P2''\<rparr>"
  by (simp add: map_prompt_def prompt_mapping_def)

lemma map_prompt_kept:
  assumes "isin_prompt_mapping r"
  shows "map_prompt r =
     r\<lparr>Prompt := Text (if Prompt r = Text ''current_user_template.txt'' then ''P1'' else ''P2'')\<rparr>"
  using assms by (auto simp: isin_prompt_mapping_iff map_prompt_current map_prompt_previous)

lemma map_prompt_fields:
  "Model (map_prompt r) = Model r" "Temperature (map_prompt r) = Temperature r"
  "metric (map_prompt r) = metric r" "MappedModel (map_prompt r) = MappedModel r"
  by (simp_all add: map_prompt_def MappedModel_def)

lemma set_table_rows: "set (table_rows df) = map_prompt ` {r \<in> set df. isin_prompt_mapping r}"
proof -
  have "set (table_rows df) = set_mset (mset (table_rows df))" by simp
  also have "\<dots> = map_prompt ` {r \<in> set df. isin_prompt_mapping r}"
    unfolding mset_table_rows by auto
  finally show ?thesis .
qed

lemma generate_table:
  "generate_full_latex_table csv_path (Inr df) =
     Inr (latex_header @ concat (map latex_row (table_rows df)) @ latex_footer)"
  by (simp add: generate_full_latex_table_def)


text \<open>
  C10. Among the rows of the table with the same display label and prompt code, a row
  without a temperature (NaN) comes after every row with one: once a row of the group
  has no temperature, no later row of the group has one. \<open>table_rows\<close> is a function of the
  data frame, so the placement is the same on every run.
\<close>

theorem missing_temperature_sorts_last:
  assumes "i < j" and "j < length (table_rows df)"
    and "MappedModel (table_rows df ! i) = MappedModel (table_rows df ! j)"
    and "Prompt (table_rows df ! i) = Prompt (table_rows df ! j)"
    and "Temperature (table_rows df ! i) = NaN"
  shows "Temperature (table_rows df ! j) = NaN"
proof -
  let ?rows = "table_rows df"
  have "sorted (map sort_columns ?rows)"
    unfolding table_rows_def by (rule sort_values_sorted)
  moreover have "i \<le> j" "j < length (map sort_columns ?rows)"
    using assms(1,2) by simp_all
  ultimately have "map sort_columns ?rows ! i \<le> map sort_columns ?rows ! j"
    by (rule sorted_nth_mono)
  then have "sort_columns (?rows ! i) \<le> sort_columns (?rows ! j)"
    using assms(1,2) by simp
  then have "float_rank (Temperature (?rows ! i))
               \<le> float_rank (Temperature (?rows ! j))"
    using assms(3,4) by (simp add: sort_columns_def less_eq_prod_def)
  then show ?thesis
    using assms(5) by (simp add: float_rank_NaN_le)
qed

theorem missing_temperature_sorts_last_witness:
  "map Temperature
     (table_rows
       [\<lparr>Model = Text ''A'', Prompt = Text ''current_user_template.txt'',
           Temperature = NaN, metric = (\<lambda>c. Finite 0)\<rparr>,
        \<lparr>Model = Text ''A'', Prompt = Text ''current_user_template.txt'',
           Temperature = Finite (7 / 10), metric = (\<lambda>c. Finite 0)\<rparr>,
        \<lparr>Model = Text ''A'', Prompt = Text ''current_user_template.txt'',
           Temperature = NaN, metric = (\<lambda>c. Finite 1)\<rparr>])
   = [Finite (7 / 10), NaN, NaN]"
proof -
  let ?df = "[\<lparr>Model = Text ''A'', Prompt = Text ''current_user_template.txt'',
                 Temperature = NaN, metric = (\<lambda>c. Finite 0)\<rparr>,
              \<lparr>Model = Text ''A'', Prompt = Text ''current_user_template.txt'',
                 Temperature = Finite (7 / 10), metric = (\<lambda>c. Finite 0)\<rparr>,
              \<lparr>Model = Text ''A'', Prompt = Text ''current_user_template.txt'',
                 Temperature = NaN, metric = (\<lambda>c. Finite 1)\<rparr>]"
  have rows: "table_rows ?df =
      [\<lparr>Model = Text ''A'', Prompt = Text ''P1'', Temperature = Finite (7 / 10),
          metric = (\<lambda>c. Finite 0)\<rparr>,
       \<lparr>Model = Text ''A'', Prompt = Text ''P1'', Temperature = NaN,
          metric = (\<lambda>c. Finite 0)\<rparr>,
       \<lparr>Model = Text ''A'', Prompt = Text ''P1'', Temperature = NaN,
          metric = (\<lambda>c. Finite 1)\<rparr>]"
    by (simp add: table_rows_def sort_values_def isin_prompt_mapping_def prompt_mapping_def
        map_prompt_def sort_columns_def MappedModel_def model_name_mapping_def model_name_items_def
        less_eq_prod_def)
  have "Temperature (table_rows ?df ! 2) = NaN"
    by (rule missing_temperature_sorts_last [of 1 2])
      (simp_all add: rows MappedModel_def model_name_mapping_def model_name_items_def)
  then show ?thesis by (simp add: rows)
qed

lemma map_prompt_inj:
  assumes "isin_prompt_mapping x" "isin_prompt_mapping r" "map_prompt x = map_prompt r"
  shows "x = r"
proof -
  have fields: "Model x = Model r" "Temperature x = Temperature r" "metric x = metric r"
    "row.more x = row.more r"
    using arg_cong [OF assms(3), of Model] arg_cong [OF assms(3), of Temperature]
      arg_cong [OF assms(3), of metric] arg_cong [OF assms(3), of row.more]
    by (simp_all add: map_prompt_def)
  have "Prompt (map_prompt x) = Prompt (map_prompt r)" using assms(3) by simp
  then have "Prompt x = Prompt r"
    using assms(1,2)
    by (auto simp: isin_prompt_mapping_iff map_prompt_current map_prompt_previous)
  with fields show ?thesis by simp
qed

lemma count_table_rows:
  assumes "isin_prompt_mapping r"
  shows "count_list (table_rows df) (map_prompt r) = count_list df r"
proof -
  have "count_list (map map_prompt (filter isin_prompt_mapping xs)) (map_prompt r)
          = count_list xs r" for xs
  proof (induction xs)
    case Nil
    show ?case by simp
  next
    case (Cons x xs)
    show ?case
    proof (cases "isin_prompt_mapping x")
      case True
      then have "map_prompt x = map_prompt r \<longleftrightarrow> x = r"
        using map_prompt_inj [OF True assms] by auto
      with True Cons.IH show ?thesis by simp
    next
      case False
      with assms have "x \<noteq> r" by auto
      with False Cons.IH show ?thesis by simp
    qed
  qed
  moreover have "count_list (table_rows df) y
      = count_list (map map_prompt (filter isin_prompt_mapping df)) y" for y
    by (simp add: table_rows_def mset_sort_values flip: count_mset)
  ultimately show ?thesis by simp
qed

lemma latex_row_line:
  "latex_row r =
     cell_m r @ '' & '' @ py_str (Prompt r) @ '' & '' @ cell_t r @ '' & '' @ avg_vals r
     @ '' & '' @ cell_total r @ '' & '' @ g4o_vals r @ '' & '' @ claude_vals r
     @ '' '' @ [bslash, bslash, newline]"
  by (simp add: latex_row_def cell_p_def tex_def)

lemma example_document:
  "concat (map latex_row (table_rows
     [\<lparr>Model = Text ''B'', Prompt = Text ''previous_user_template.txt'',
         Temperature = Finite (1 / 2), metric = (\<lambda>c. Finite (1 / 2))\<rparr>,
      \<lparr>Model = Text ''A'', Prompt = Text ''next_user_template.txt'',
         Temperature = Finite (1 / 2), metric = (\<lambda>c. Finite (1 / 2))\<rparr>,
      \<lparr>Model = Text ''A'', Prompt = Text ''current_user_template.txt'',
         Temperature = NaN, metric = (\<lambda>c. Finite (1 / 4))\<rparr>]))
   = ''A & P1 & - & 0.25 & 0.25 & 0.25 & 0.25 & 0.25 & 1.25 & 0.25 & 0.25 & 0.25 & 0.25 & 0.25 & 0.25 & 0.25 & 0.25 & 0.25 & 0.25 ''
       @ [bslash, bslash, newline]
     @ ''B & P2 & 0.5 & 0.50 & 0.50 & 0.50 & 0.50 & 0.50 & 2.50 & 0.50 & 0.50 & 0.50 & 0.50 & 0.50 & 0.50 & 0.50 & 0.50 & 0.50 & 0.50 ''
       @ [bslash, bslash, newline]"
proof -
  have rows: "table_rows
     [\<lparr>Model = Text ''B'', Prompt = Text ''previous_user_template.txt'',
         Temperature = Finite (1 / 2), metric = (\<lambda>c. Finite (1 / 2))\<rparr>,
      \<lparr>Model = Text ''A'', Prompt = Text ''next_user_template.txt'',
         Temperature = Finite (1 / 2), metric = (\<lambda>c. Finite (1 / 2))\<rparr>,
      \<lparr>Model = Text ''A'', Prompt = Text ''current_user_template.txt'',
         Temperature = NaN, metric = (\<lambda>c. Finite (1 / 4))\<rparr>]
    = [\<lparr>Model = Text ''A'', Prompt = Text ''P1'', Temperature = NaN,
          metric = (\<lambda>c. Finite (1 / 4))\<rparr>,
       \<lparr>Model = Text ''B'', Prompt = Text ''P2'', Temperature = Finite (1 / 2),
          metric = (\<lambda>c. Finite (1 / 2))\<rparr>]"
    by (simp add: table_rows_def sort_values_def isin_prompt_mapping_def prompt_mapping_def
        map_prompt_def sort_columns_def MappedModel_def model_name_mapping_def model_name_items_def
        less_eq_prod_def)
  have line1: "latex_row \<lparr>Model = Text ''A'', Prompt = Text ''P1'', Temperature = NaN,
          metric = (\<lambda>c. Finite (1 / 4))\<rparr>
      = ''A & P1 & - & 0.25 & 0.25 & 0.25 & 0.25 & 0.25 & 1.25 & 0.25 & 0.25 & 0.25 & 0.25 & 0.25 & 0.25 & 0.25 & 0.25 & 0.25 & 0.25 ''
       @ [bslash, bslash, newline]"
    by code_simp
  have line2: "latex_row \<lparr>Model = Text ''B'', Prompt = Text ''P2'', Temperature = Finite (1 / 2),
          metric = (\<lambda>c. Finite (1 / 2))\<rparr>
      = ''B & P2 & 0.5 & 0.50 & 0.50 & 0.50 & 0.50 & 0.50 & 2.50 & 0.50 & 0.50 & 0.50 & 0.50 & 0.50 & 0.50 & 0.50 & 0.50 & 0.50 & 0.50 ''
       @ [bslash, bslash, newline]"
    by code_simp
  show ?thesis
    unfolding rows by (simp only: list.map concat.simps line1 line2 append_Nil2 append_assoc)
qed

text \<open>
  C3. The document is the header, one line for each row of the table, in the order of
  the table, and the footer. The rows of the table are, as a multiset, the rows of the
  data frame whose \<open>Prompt\<close> is one of the two recognised names, each with its \<open>Prompt\<close>
  replaced by the short code, \<^verbatim>\<open>P1\<close> for \<^verbatim>\<open>current_user_template.txt\<close> and \<^verbatim>\<open>P2\<close> for
  \<^verbatim>\<open>previous_user_template.txt\<close>, and nothing else changed: a row with another prompt, or
  with none, gives no row of the table and so no line; a row with a recognised prompt
  gives exactly as many rows of the table as it has occurrences in the data frame; and
  the filter is the only step that removes a row. The line of a row of the table has the
  short code as its second cell. For a data frame of three rows, one of them with an
  unknown prompt, the lines of the document are the two written out below.
\<close>

theorem prompt_filter_and_remap:
  "generate_full_latex_table csv_path (Inr df) =
      Inr (latex_header @ concat (map latex_row (table_rows df)) @ latex_footer)
   \<and> mset (table_rows df) =
       image_mset
         (\<lambda>r. r\<lparr>Prompt :=
                  Text (if Prompt r = Text ''current_user_template.txt'' then ''P1'' else ''P2'')\<rparr>)
         (filter_mset
            (\<lambda>r. Prompt r = Text ''current_user_template.txt''
                  \<or> Prompt r = Text ''previous_user_template.txt'')
            (mset df))
   \<and> length (table_rows df) =
       length (filter (\<lambda>r. Prompt r = Text ''current_user_template.txt''
                           \<or> Prompt r = Text ''previous_user_template.txt'') df)
   \<and> (Prompt r = Text ''current_user_template.txt'' \<longrightarrow>
        count_list (table_rows df) (r\<lparr>Prompt := Text ''P1''\<rparr>) = count_list df r)
   \<and> (Prompt r = Text ''previous_user_template.txt'' \<longrightarrow>
        count_list (table_rows df) (r\<lparr>Prompt := Text ''P2''\<rparr>) = count_list df r)
   \<and> (Prompt x = Text code \<longrightarrow>
        latex_row x =
          cell_m x @ '' & '' @ code @ '' & '' @ cell_t x @ '' & '' @ avg_vals x
          @ '' & '' @ cell_total x @ '' & '' @ g4o_vals x @ '' & '' @ claude_vals x
          @ '' '' @ [bslash, bslash, newline])
   \<and> generate_full_latex_table csv_path
        (Inr [\<lparr>Model = Text ''B'', Prompt = Text ''previous_user_template.txt'',
                 Temperature = Finite (1 / 2), metric = (\<lambda>c. Finite (1 / 2))\<rparr>,
              \<lparr>Model = Text ''A'', Prompt = Text ''next_user_template.txt'',
                 Temperature = Finite (1 / 2), metric = (\<lambda>c. Finite (1 / 2))\<rparr>,
              \<lparr>Model = Text ''A'', Prompt = Text ''current_user_template.txt'',
                 Temperature = NaN, metric = (\<lambda>c. Finite (1 / 4))\<rparr>])
      = Inr (latex_header
          @ ''A & P1 & - & 0.25 & 0.25 & 0.25 & 0.25 & 0.25 & 1.25 & 0.25 & 0.25 & 0.25 & 0.25 & 0.25 & 0.25 & 0.25 & 0.25 & 0.25 & 0.25 ''
          @ [bslash, bslash, newline]
          @ ''B & P2 & 0.5 & 0.50 & 0.50 & 0.50 & 0.50 & 0.50 & 2.50 & 0.50 & 0.50 & 0.50 & 0.50 & 0.50 & 0.50 & 0.50 & 0.50 & 0.50 & 0.50 ''
          @ [bslash, bslash, newline]
          @ latex_footer)"
proof (intro conjI impI)
  let ?kept = "\<lambda>r. Prompt r = Text ''current_user_template.txt''
                  \<or> Prompt r = Text ''previous_user_template.txt''"
  let ?code = "\<lambda>r. r\<lparr>Prompt :=
                  Text (if Prompt r = Text ''current_user_template.txt'' then ''P1'' else ''P2'')\<rparr>"
  have isin: "isin_prompt_mapping = ?kept"
    by (rule ext) (rule isin_prompt_mapping_iff)
  show "generate_full_latex_table csv_path (Inr df) =
      Inr (latex_header @ concat (map latex_row (table_rows df)) @ latex_footer)"
    by (rule generate_table)
  have "image_mset map_prompt (filter_mset ?kept (mset df))
          = image_mset ?code (filter_mset ?kept (mset df))"
    by (rule image_mset_cong) (simp add: map_prompt_kept isin)
  then show m: "mset (table_rows df) = image_mset ?code (filter_mset ?kept (mset df))"
    by (simp add: mset_table_rows isin)
  have "length (table_rows df) = size (mset (table_rows df))" by simp
  also have "\<dots> = length (filter ?kept df)"
    unfolding m by (simp flip: mset_filter)
  finally show "length (table_rows df) = length (filter ?kept df)" .
  show "count_list (table_rows df) (r\<lparr>Prompt := Text ''P1''\<rparr>) = count_list df r"
    if "Prompt r = Text ''current_user_template.txt''"
    using that count_table_rows [of r df]
    by (simp add: isin_prompt_mapping_iff map_prompt_current)
  show "count_list (table_rows df) (r\<lparr>Prompt := Text ''P2''\<rparr>) = count_list df r"
    if "Prompt r = Text ''previous_user_template.txt''"
    using that count_table_rows [of r df]
    by (simp add: isin_prompt_mapping_iff map_prompt_previous)
  show "latex_row x =
          cell_m x @ '' & '' @ code @ '' & '' @ cell_t x @ '' & '' @ avg_vals x
          @ '' & '' @ cell_total x @ '' & '' @ g4o_vals x @ '' & '' @ claude_vals x
          @ '' '' @ [bslash, bslash, newline]"
    if "Prompt x = Text code"
    using that by (simp add: latex_row_line)
  show "generate_full_latex_table csv_path
        (Inr [\<lparr>Model = Text ''B'', Prompt = Text ''previous_user_template.txt'',
                 Temperature = Finite (1 / 2), metric = (\<lambda>c. Finite (1 / 2))\<rparr>,
              \<lparr>Model = Text ''A'', Prompt = Text ''next_user_template.txt'',
                 Temperature = Finite (1 / 2), metric = (\<lambda>c. Finite (1 / 2))\<rparr>,
              \<lparr>Model = Text ''A'', Prompt = Text ''current_user_template.txt'',
                 Temperature = NaN, metric = (\<lambda>c. Finite (1 / 4))\<rparr>])
      = Inr (latex_header
          @ ''A & P1 & - & 0.25 & 0.25 & 0.25 & 0.25 & 0.25 & 1.25 & 0.25 & 0.25 & 0.25 & 0.25 & 0.25 & 0.25 & 0.25 & 0.25 & 0.25 & 0.25 ''
          @ [bslash, bslash, newline]
          @ ''B & P2 & 0.5 & 0.50 & 0.50 & 0.50 & 0.50 & 0.50 & 2.50 & 0.50 & 0.50 & 0.50 & 0.50 & 0.50 & 0.50 & 0.50 & 0.50 & 0.50 & 0.50 ''
          @ [bslash, bslash, newline]
          @ latex_footer)"
    unfolding generate_table example_document by simp
qed

theorem prompt_filter_and_remap_witness:
  "count_list
     (table_rows
        [\<lparr>Model = Text ''B'', Prompt = Text ''previous_user_template.txt'', Temperature = NaN,
            metric = (\<lambda>c. Finite 0)\<rparr>,
         \<lparr>Model = Text ''A'', Prompt = Text ''next_user_template.txt'', Temperature = NaN,
            metric = (\<lambda>c. Finite 0)\<rparr>,
         \<lparr>Model = Text ''A'', Prompt = Text ''current_user_template.txt'', Temperature = NaN,
            metric = (\<lambda>c. Finite 0)\<rparr>,
         \<lparr>Model = Text ''A'', Prompt = Text ''current_user_template.txt'', Temperature = NaN,
            metric = (\<lambda>c. Finite 0)\<rparr>])
     \<lparr>Model = Text ''A'', Prompt = Text ''P1'', Temperature = NaN, metric = (\<lambda>c. Finite 0)\<rparr>
   = 2
   \<and> (\<exists>label rest.
        latex_row \<lparr>Model = Text ''A'', Prompt = Text ''P1'', Temperature = NaN,
                   metric = (\<lambda>c. Finite 0)\<rparr>
          = label @ '' & P1 & '' @ rest)"
proof -
  let ?r = "\<lparr>Model = Text ''A'', Prompt = Text ''current_user_template.txt'',
              Temperature = NaN, metric = (\<lambda>c. Finite 0)\<rparr>"
  let ?r' = "\<lparr>Model = Text ''A'', Prompt = Text ''P1'', Temperature = NaN,
               metric = (\<lambda>c. Finite 0)\<rparr>"
  let ?df = "[\<lparr>Model = Text ''B'', Prompt = Text ''previous_user_template.txt'',
                 Temperature = NaN, metric = (\<lambda>c. Finite 0)\<rparr>,
              \<lparr>Model = Text ''A'', Prompt = Text ''next_user_template.txt'',
                 Temperature = NaN, metric = (\<lambda>c. Finite 0)\<rparr>,
              ?r, ?r]"
  have p: "Prompt ?r = Text ''current_user_template.txt''" by simp
  have p': "Prompt ?r' = Text ''P1''" by simp
  have "count_list (table_rows ?df) (?r\<lparr>Prompt := Text ''P1''\<rparr>) = count_list ?df ?r"
    using prompt_filter_and_remap [of "''results.csv''" ?df ?r ?r' "''P1''"] p by blast
  then have 1: "count_list (table_rows ?df) ?r' = 2" by simp
  have "latex_row ?r' =
          cell_m ?r' @ '' & '' @ ''P1'' @ '' & '' @ cell_t ?r' @ '' & '' @ avg_vals ?r'
          @ '' & '' @ cell_total ?r' @ '' & '' @ g4o_vals ?r' @ '' & '' @ claude_vals ?r'
          @ '' '' @ [bslash, bslash, newline]"
    using prompt_filter_and_remap [of "''results.csv''" ?df ?r ?r' "''P1''"] p' by blast
  then have "\<exists>label rest. latex_row ?r' = label @ '' & P1 & '' @ rest"
    by (intro exI [of _ "cell_m ?r'"] exI) simp
  with 1 show ?thesis by blast
qed

subsection \<open>The label\<close>

text \<open>
  C9, as the code has it. A row of the data frame with a recognised prompt is a row of
  the table whatever its model identifier: it is not dropped for being unmapped, and
  nothing fails. When the identifier was read as a text that is not a key of
  \<open>model_name_mapping\<close>, the display label is that text, and the label cell of the line
  is the text with a backslash put before every underscore and every other character
  kept as it is. When the identifier is missing, which is what \<^verbatim>\<open>read_csv\<close> makes of an
  empty field and of a field such as \<^verbatim>\<open>NA\<close>, \<^verbatim>\<open>null\<close>, \<^verbatim>\<open>None\<close> or \<^verbatim>\<open>nan\<close>, the display
  label is missing too and the label cell is \<^verbatim>\<open>nan\<close>. The label cell opens the line and
  the prompt code follows it.
\<close>

theorem unmapped_label_fallback:
  assumes "r \<in> set df"
    and "Prompt r = Text ''current_user_template.txt'' \<and> code = ''P1''
         \<or> Prompt r = Text ''previous_user_template.txt'' \<and> code = ''P2''"
  shows "r\<lparr>Prompt := Text code\<rparr> \<in> set (table_rows df)
     \<and> (Model r = Text s \<and> model_name_mapping s = None \<longrightarrow>
          MappedModel (r\<lparr>Prompt := Text code\<rparr>) = Text s
          \<and> cell_m (r\<lparr>Prompt := Text code\<rparr>) =
              concat (map (\<lambda>c. if c = CHR ''_'' then [bslash, CHR ''_''] else [c]) s))
     \<and> (Model r = Missing \<longrightarrow>
          MappedModel (r\<lparr>Prompt := Text code\<rparr>) = Missing
          \<and> cell_m (r\<lparr>Prompt := Text code\<rparr>) = ''nan'')
     \<and> (read_text field = Missing \<longleftrightarrow> field \<in> set STR_NA_VALUES)
     \<and> (read_text field = Text field \<longleftrightarrow> field \<notin> set STR_NA_VALUES)
     \<and> (\<exists>rest. latex_row (r\<lparr>Prompt := Text code\<rparr>) =
           cell_m (r\<lparr>Prompt := Text code\<rparr>) @ '' & '' @ code @ '' & '' @ rest)"
proof (intro conjI impI)
  let ?r = "r\<lparr>Prompt := Text code\<rparr>"
  have isin: "isin_prompt_mapping r" and code: "map_prompt r = ?r"
    using assms(2) by (auto simp: isin_prompt_mapping_iff map_prompt_current map_prompt_previous)
  have "map_prompt r \<in> map_prompt ` {r \<in> set df. isin_prompt_mapping r}"
    using assms(1) isin by blast
  then show "?r \<in> set (table_rows df)"
    by (simp only: set_table_rows code)
  show "\<exists>rest. latex_row ?r = cell_m ?r @ '' & '' @ code @ '' & '' @ rest"
    by (simp add: latex_row_def cell_p_def)
  show "read_text field = Missing \<longleftrightarrow> field \<in> set STR_NA_VALUES"
    by (simp add: read_text_def)
  show "read_text field = Text field \<longleftrightarrow> field \<notin> set STR_NA_VALUES"
    by (simp add: read_text_def)
next
  let ?r = "r\<lparr>Prompt := Text code\<rparr>"
  assume "Model r = Text s \<and> model_name_mapping s = None"
  then show label: "MappedModel ?r = Text s"
    by (simp add: MappedModel_def)
  show "cell_m ?r = concat (map (\<lambda>c. if c = CHR ''_'' then [bslash, CHR ''_''] else [c]) s)"
    unfolding cell_m_def label by (simp add: str_replace_char tex_def)
next
  let ?r = "r\<lparr>Prompt := Text code\<rparr>"
  assume "Model r = Missing"
  then show label: "MappedModel ?r = Missing"
    by (simp add: MappedModel_def)
  show "cell_m ?r = ''nan''"
    unfolding cell_m_def label by (simp add: str_replace_char)
qed

theorem unmapped_label_fallback_witness:
  "cell_m \<lparr>Model = Text ''my_model_v2'', Prompt = Text ''P1'',
       Temperature = NaN, metric = (\<lambda>c. Finite 0)\<rparr>
     = ''my'' @ [bslash] @ ''_model'' @ [bslash] @ ''_v2''
   \<and> \<lparr>Model = Text ''my_model_v2'', Prompt = Text ''P1'',
        Temperature = NaN, metric = (\<lambda>c. Finite 0)\<rparr>
      \<in> set (table_rows [\<lparr>Model = Text ''my_model_v2'',
        Prompt = Text ''current_user_template.txt'',
        Temperature = NaN, metric = (\<lambda>c. Finite 0)\<rparr>])
   \<and> cell_m \<lparr>Model = Missing, Prompt = Text ''P1'',
       Temperature = NaN, metric = (\<lambda>c. Finite 0)\<rparr> = ''nan''"
proof -
  let ?r = "\<lparr>Model = Text ''my_model_v2'', Prompt = Text ''current_user_template.txt'',
              Temperature = NaN, metric = (\<lambda>c. Finite 0)\<rparr>"
  let ?n = "\<lparr>Model = Missing, Prompt = Text ''current_user_template.txt'',
              Temperature = NaN, metric = (\<lambda>c. Finite 0)\<rparr>"
  have 1: "?r \<in> set [?r]" and n1: "?n \<in> set [?n]" by simp_all
  have 2: "Prompt ?r = Text ''current_user_template.txt'' \<and> ''P1'' = ''P1''
         \<or> Prompt ?r = Text ''previous_user_template.txt'' \<and> ''P1'' = ''P2''"
    and n2: "Prompt ?n = Text ''current_user_template.txt'' \<and> ''P1'' = ''P1''
         \<or> Prompt ?n = Text ''previous_user_template.txt'' \<and> ''P1'' = ''P2''"
    by simp_all
  have 3: "Model ?r = Text ''my_model_v2'' \<and> model_name_mapping ''my_model_v2'' = None"
    by (simp add: model_name_mapping_def model_name_items_def)
  have n3: "Model ?n = Missing" by simp
  show ?thesis
    using unmapped_label_fallback [OF 1 2, of "''my_model_v2''" "''NA''"]
      unmapped_label_fallback [OF n1 n2, of "''my_model_v2''" "''NA''"] 3 n3
    by simp
qed

text \<open>
  The claim as the specification states it fails on a row whose identifier in the file
  is \<^verbatim>\<open>NA\<close>: that text is no key of the curated mapping, pandas reads it as a missing
  value, and the row, which is kept, is labelled \<^verbatim>\<open>nan\<close> and not \<^verbatim>\<open>NA\<close>.
\<close>

theorem na_identifier_prints_nan:
  "model_name_mapping ''NA'' = None
   \<and> read_text ''NA'' = Missing
   \<and> table_rows [\<lparr>Model = read_text ''NA'', Prompt = read_text ''current_user_template.txt'',
                   Temperature = Finite 0, metric = (\<lambda>c. Finite (1 / 2))\<rparr>]
       = [\<lparr>Model = Missing, Prompt = Text ''P1'',
           Temperature = Finite 0, metric = (\<lambda>c. Finite (1 / 2))\<rparr>]
   \<and> latex_row \<lparr>Model = Missing, Prompt = Text ''P1'',
                  Temperature = Finite 0, metric = (\<lambda>c. Finite (1 / 2))\<rparr>
       = ''nan & P1 & 0.0 & 0.50 & 0.50 & 0.50 & 0.50 & 0.50 & 2.50 & 0.50 & 0.50 & 0.50 & 0.50 & 0.50 & 0.50 & 0.50 & 0.50 & 0.50 & 0.50 ''
         @ [bslash, bslash, newline]"
proof (intro conjI)
  show "model_name_mapping ''NA'' = None"
    by (simp add: model_name_mapping_def model_name_items_def)
  show na: "read_text ''NA'' = Missing"
    by (simp add: read_text_def STR_NA_VALUES_def)
  have p: "read_text ''current_user_template.txt'' = Text ''current_user_template.txt''"
    by (simp add: read_text_def STR_NA_VALUES_def)
  show "table_rows [\<lparr>Model = read_text ''NA'', Prompt = read_text ''current_user_template.txt'',
                   Temperature = Finite 0, metric = (\<lambda>c. Finite (1 / 2))\<rparr>]
       = [\<lparr>Model = Missing, Prompt = Text ''P1'',
           Temperature = Finite 0, metric = (\<lambda>c. Finite (1 / 2))\<rparr>]"
    unfolding na p
    by (simp add: table_rows_def sort_values_def isin_prompt_mapping_def prompt_mapping_def
        map_prompt_def)
  show "latex_row \<lparr>Model = Missing, Prompt = Text ''P1'',
                  Temperature = Finite 0, metric = (\<lambda>c. Finite (1 / 2))\<rparr>
       = ''nan & P1 & 0.0 & 0.50 & 0.50 & 0.50 & 0.50 & 0.50 & 2.50 & 0.50 & 0.50 & 0.50 & 0.50 & 0.50 & 0.50 & 0.50 & 0.50 & 0.50 & 0.50 ''
         @ [bslash, bslash, newline]"
    by code_simp
qed

subsection \<open>The cells of a line\<close>

lemma avg_cols_eq:
  "avg_cols =
     [''Answer Relevancy (Avg)'', ''Correctness (Avg)'', ''Faithfulness (Avg)'',
      ''Hallucination (Avg)'', ''Specific Information Accuracy (Avg)'']"
  by (simp add: avg_cols_def metrics_def metric_order_def)

lemma gpt4o_cols_eq:
  "gpt4o_cols =
     [''Answer Relevancy (GPT-4o)'', ''Correctness (GPT-4o)'', ''Faithfulness (GPT-4o)'',
      ''Hallucination (GPT-4o)'', ''Specific Information Accuracy (GPT-4o)'']"
  by (simp add: gpt4o_cols_def metrics_def metric_order_def)

lemma claude_cols_eq:
  "claude_cols =
     [''Answer Relevancy (Sonnet3.5)'', ''Correctness (Sonnet3.5)'', ''Faithfulness (Sonnet3.5)'',
      ''Hallucination (Sonnet3.5)'', ''Specific Information Accuracy (Sonnet3.5)'']"
  by (simp add: claude_cols_def metrics_def metric_order_def)

lemma Sum_column_eq:
  "Sum_column r =
     foldl fadd (Finite 0)
       (map (\<lambda>c. if metric r c = NaN then Finite 0 else metric r c)
          [''Answer Relevancy (Avg)'', ''Correctness (Avg)'', ''Faithfulness (Avg)'',
           ''Hallucination (Avg)'', ''Specific Information Accuracy (Avg)''])"
  unfolding Sum_column_def float_sum_def avg_cols_eq
  by (simp add: nan_to_zero_def)

lemma Sum_column_values:
  assumes "map (metric r)
             [''Answer Relevancy (Avg)'', ''Correctness (Avg)'', ''Faithfulness (Avg)'',
              ''Hallucination (Avg)'', ''Specific Information Accuracy (Avg)''] = vs"
  shows "Sum_column r = float_sum vs"
  unfolding Sum_column_def avg_cols_eq assms ..

lemma example_totals:
  "format_f 2 (float_sum (map binary64 [80 / 100, 70 / 100, 60 / 100, 90 / 100, 50 / 100]))
     = ''3.50''"
  "format_f 2 (float_sum [NaN, binary64 (1 / 2), binary64 (1 / 2), binary64 (1 / 2),
       binary64 (1 / 2)]) = ''2.00''"
  "format_f 2 (float_sum [NaN, NaN, NaN, NaN, NaN]) = ''0.00''"
  "format_f 2 (float_sum [NegZero, NegZero, NegZero, NegZero, NegZero]) = ''0.00''"
  by code_simp+

lemma fadd_exact:
  assumes "binary64 (a + b) = Finite (a + b)"
  shows "fadd (Finite a) (Finite b) = Finite (a + b)"
  using assms by simp

lemma float_sum_exact:
  assumes "binary64 a1 = Finite a1"
    and "binary64 (a1 + a2) = Finite (a1 + a2)"
    and "binary64 (a1 + a2 + a3) = Finite (a1 + a2 + a3)"
    and "binary64 (a1 + a2 + a3 + a4) = Finite (a1 + a2 + a3 + a4)"
    and "binary64 (a1 + a2 + a3 + a4 + a5) = Finite (a1 + a2 + a3 + a4 + a5)"
  shows "float_sum (map Finite [a1, a2, a3, a4, a5]) = Finite (a1 + a2 + a3 + a4 + a5)"
proof -
  have 1: "fadd (Finite 0) (Finite a1) = Finite a1"
    using fadd_exact [of 0 a1] assms(1) by simp
  show ?thesis
    by (simp only: float_sum_def nan_to_zero_def list.map foldl.simps pyfloat.distinct if_False
        1 fadd_exact [OF assms(2)] fadd_exact [OF assms(3)] fadd_exact [OF assms(4)]
        fadd_exact [OF assms(5)])
qed

lemma latex_row_cells:
  "latex_row r =
     str_join '' & ''
       ([cell_m r, py_str (Prompt r), cell_t r]
        @ map (\<lambda>c. format_f 2 (metric r c))
            [''Answer Relevancy (Avg)'', ''Correctness (Avg)'', ''Faithfulness (Avg)'',
             ''Hallucination (Avg)'', ''Specific Information Accuracy (Avg)'']
        @ [cell_total r]
        @ map (\<lambda>c. format_f 2 (metric r c))
            [''Answer Relevancy (GPT-4o)'', ''Correctness (GPT-4o)'', ''Faithfulness (GPT-4o)'',
             ''Hallucination (GPT-4o)'', ''Specific Information Accuracy (GPT-4o)'']
        @ map (\<lambda>c. format_f 2 (metric r c))
            [''Answer Relevancy (Sonnet3.5)'', ''Correctness (Sonnet3.5)'',
             ''Faithfulness (Sonnet3.5)'', ''Hallucination (Sonnet3.5)'',
             ''Specific Information Accuracy (Sonnet3.5)''])
     @ '' '' @ [bslash, bslash, newline]"
  unfolding latex_row_def avg_vals_def g4o_vals_def claude_vals_def cell_p_def
    avg_cols_eq gpt4o_cols_eq claude_cols_eq tex_def
  by simp

text \<open>
  C6. In the line of every row, the cell after the five averages is the total, printed
  by the format \<^verbatim>\<open>.2f\<close>: the sum of the row's five average columns as pandas computes
  it, that is, starting from zero, the five values added one after the other in the
  order of the columns by floating-point addition, a missing average counting as zero.
  Whenever these additions are exact, the total printed is the sum of the five averages
  to two decimals. For the averages 0.80, 0.70, 0.60, 0.90 and 0.50 the total printed is
  3.50; with the first average missing and the others 0.5 it is 2.00; with all five
  missing, or all five a negative zero, it is 0.00.
\<close>

theorem total_is_sum_of_averages:
  "cell_total r =
     format_f 2
       (foldl fadd (Finite 0)
          (map (\<lambda>c. if metric r c = NaN then Finite 0 else metric r c)
             [''Answer Relevancy (Avg)'', ''Correctness (Avg)'', ''Faithfulness (Avg)'',
              ''Hallucination (Avg)'', ''Specific Information Accuracy (Avg)'']))
   \<and> latex_row r =
       cell_m r @ '' & '' @ py_str (Prompt r) @ '' & '' @ cell_t r @ '' & ''
       @ str_join '' & ''
           (map (\<lambda>c. format_f 2 (metric r c))
              [''Answer Relevancy (Avg)'', ''Correctness (Avg)'', ''Faithfulness (Avg)'',
               ''Hallucination (Avg)'', ''Specific Information Accuracy (Avg)''])
       @ '' & '' @ cell_total r @ '' & '' @ g4o_vals r @ '' & '' @ claude_vals r
       @ '' '' @ [bslash, bslash, newline]
   \<and> (map (metric r)
         [''Answer Relevancy (Avg)'', ''Correctness (Avg)'', ''Faithfulness (Avg)'',
          ''Hallucination (Avg)'', ''Specific Information Accuracy (Avg)'']
         = map Finite [a1, a2, a3, a4, a5]
       \<and> binary64 a1 = Finite a1
       \<and> binary64 (a1 + a2) = Finite (a1 + a2)
       \<and> binary64 (a1 + a2 + a3) = Finite (a1 + a2 + a3)
       \<and> binary64 (a1 + a2 + a3 + a4) = Finite (a1 + a2 + a3 + a4)
       \<and> binary64 (a1 + a2 + a3 + a4 + a5) = Finite (a1 + a2 + a3 + a4 + a5)
       \<longrightarrow> cell_total r = format_f 2 (Finite (a1 + a2 + a3 + a4 + a5)))
   \<and> (map (metric r)
         [''Answer Relevancy (Avg)'', ''Correctness (Avg)'', ''Faithfulness (Avg)'',
          ''Hallucination (Avg)'', ''Specific Information Accuracy (Avg)'']
         = map binary64 [80 / 100, 70 / 100, 60 / 100, 90 / 100, 50 / 100]
       \<longrightarrow> cell_total r = ''3.50'')
   \<and> (map (metric r)
         [''Answer Relevancy (Avg)'', ''Correctness (Avg)'', ''Faithfulness (Avg)'',
          ''Hallucination (Avg)'', ''Specific Information Accuracy (Avg)'']
         = [NaN, binary64 (1 / 2), binary64 (1 / 2), binary64 (1 / 2), binary64 (1 / 2)]
       \<longrightarrow> cell_total r = ''2.00'')
   \<and> (map (metric r)
         [''Answer Relevancy (Avg)'', ''Correctness (Avg)'', ''Faithfulness (Avg)'',
          ''Hallucination (Avg)'', ''Specific Information Accuracy (Avg)'']
         = [NaN, NaN, NaN, NaN, NaN]
       \<longrightarrow> cell_total r = ''0.00'')
   \<and> (map (metric r)
         [''Answer Relevancy (Avg)'', ''Correctness (Avg)'', ''Faithfulness (Avg)'',
          ''Hallucination (Avg)'', ''Specific Information Accuracy (Avg)'']
         = [NegZero, NegZero, NegZero, NegZero, NegZero]
       \<longrightarrow> cell_total r = ''0.00'')"
proof (intro conjI impI)
  let ?avgs = "[''Answer Relevancy (Avg)'', ''Correctness (Avg)'', ''Faithfulness (Avg)'',
              ''Hallucination (Avg)'', ''Specific Information Accuracy (Avg)'']"
  show "cell_total r =
     format_f 2
       (foldl fadd (Finite 0)
          (map (\<lambda>c. if metric r c = NaN then Finite 0 else metric r c) ?avgs))"
    by (simp only: cell_total_def Sum_column_eq)
  show "latex_row r =
       cell_m r @ '' & '' @ py_str (Prompt r) @ '' & '' @ cell_t r @ '' & ''
       @ str_join '' & '' (map (\<lambda>c. format_f 2 (metric r c)) ?avgs)
       @ '' & '' @ cell_total r @ '' & '' @ g4o_vals r @ '' & '' @ claude_vals r
       @ '' '' @ [bslash, bslash, newline]"
    by (simp add: latex_row_def cell_p_def tex_def avg_vals_def avg_cols_eq)
  show "cell_total r = format_f 2 (Finite (a1 + a2 + a3 + a4 + a5))"
    if "map (metric r) ?avgs = map Finite [a1, a2, a3, a4, a5]
       \<and> binary64 a1 = Finite a1
       \<and> binary64 (a1 + a2) = Finite (a1 + a2)
       \<and> binary64 (a1 + a2 + a3) = Finite (a1 + a2 + a3)
       \<and> binary64 (a1 + a2 + a3 + a4) = Finite (a1 + a2 + a3 + a4)
       \<and> binary64 (a1 + a2 + a3 + a4 + a5) = Finite (a1 + a2 + a3 + a4 + a5)"
  proof -
    from that have vs: "map (metric r) ?avgs = map Finite [a1, a2, a3, a4, a5]" by blast
    from that have "float_sum (map Finite [a1, a2, a3, a4, a5]) = Finite (a1 + a2 + a3 + a4 + a5)"
      by (intro float_sum_exact) blast+
    then show ?thesis
      by (simp only: cell_total_def Sum_column_values [OF vs])
  qed
  show "cell_total r = ''3.50''"
    if "map (metric r) ?avgs = map binary64 [80 / 100, 70 / 100, 60 / 100, 90 / 100, 50 / 100]"
    by (simp only: cell_total_def Sum_column_values [OF that] example_totals)
  show "cell_total r = ''2.00''"
    if "map (metric r) ?avgs
          = [NaN, binary64 (1 / 2), binary64 (1 / 2), binary64 (1 / 2), binary64 (1 / 2)]"
    by (simp only: cell_total_def Sum_column_values [OF that] example_totals)
  show "cell_total r = ''0.00''"
    if "map (metric r) ?avgs = [NaN, NaN, NaN, NaN, NaN]"
    by (simp only: cell_total_def Sum_column_values [OF that] example_totals)
  show "cell_total r = ''0.00''"
    if "map (metric r) ?avgs = [NegZero, NegZero, NegZero, NegZero, NegZero]"
    by (simp only: cell_total_def Sum_column_values [OF that] example_totals)
qed

theorem total_is_sum_of_averages_witness:
  "cell_total
     \<lparr>Model = Text ''A'', Prompt = Text ''P1'', Temperature = NaN,
      metric = (\<lambda>c. if c = ''Answer Relevancy (Avg)'' then binary64 (80 / 100)
                   else if c = ''Correctness (Avg)'' then binary64 (70 / 100)
                   else if c = ''Faithfulness (Avg)'' then binary64 (60 / 100)
                   else if c = ''Hallucination (Avg)'' then binary64 (90 / 100)
                   else if c = ''Specific Information Accuracy (Avg)'' then binary64 (50 / 100)
                   else Finite 0)\<rparr>
   = ''3.50''
   \<and> cell_total
       \<lparr>Model = Text ''A'', Prompt = Text ''P1'', Temperature = NaN,
        metric = (\<lambda>c. if c = ''Answer Relevancy (Avg)'' then NaN else binary64 (1 / 2))\<rparr>
     = ''2.00''
   \<and> cell_total
       \<lparr>Model = Text ''A'', Prompt = Text ''P1'', Temperature = NaN,
        metric = (\<lambda>c. Finite (1 / 4))\<rparr>
     = format_f 2 (Finite (5 / 4))"
proof -
  let ?r = "\<lparr>Model = Text ''A'', Prompt = Text ''P1'', Temperature = NaN,
      metric = (\<lambda>c. if c = ''Answer Relevancy (Avg)'' then binary64 (80 / 100)
                   else if c = ''Correctness (Avg)'' then binary64 (70 / 100)
                   else if c = ''Faithfulness (Avg)'' then binary64 (60 / 100)
                   else if c = ''Hallucination (Avg)'' then binary64 (90 / 100)
                   else if c = ''Specific Information Accuracy (Avg)'' then binary64 (50 / 100)
                   else Finite 0)\<rparr>"
  let ?n = "\<lparr>Model = Text ''A'', Prompt = Text ''P1'', Temperature = NaN,
        metric = (\<lambda>c. if c = ''Answer Relevancy (Avg)'' then NaN else binary64 (1 / 2))\<rparr>"
  let ?q = "\<lparr>Model = Text ''A'', Prompt = Text ''P1'', Temperature = NaN,
        metric = (\<lambda>c. Finite (1 / 4))\<rparr>"
  let ?avgs = "[''Answer Relevancy (Avg)'', ''Correctness (Avg)'', ''Faithfulness (Avg)'',
              ''Hallucination (Avg)'', ''Specific Information Accuracy (Avg)'']"
  have 1: "map (metric ?r) ?avgs
             = map binary64 [80 / 100, 70 / 100, 60 / 100, 90 / 100, 50 / 100]"
    by simp
  have 2: "map (metric ?n) ?avgs
             = [NaN, binary64 (1 / 2), binary64 (1 / 2), binary64 (1 / 2), binary64 (1 / 2)]"
    by simp
  have b: "binary64 (1 / 4) = Finite (1 / 4)" "binary64 (1 / 2) = Finite (1 / 2)"
    "binary64 (3 / 4) = Finite (3 / 4)" "binary64 1 = Finite 1"
    "binary64 (5 / 4) = Finite (5 / 4)"
    by code_simp+
  have 3: "map (metric ?q) ?avgs = map Finite [1 / 4, 1 / 4, 1 / 4, 1 / 4, 1 / 4]
       \<and> binary64 (1 / 4) = Finite (1 / 4)
       \<and> binary64 (1 / 4 + 1 / 4) = Finite (1 / 4 + 1 / 4)
       \<and> binary64 (1 / 4 + 1 / 4 + 1 / 4) = Finite (1 / 4 + 1 / 4 + 1 / 4)
       \<and> binary64 (1 / 4 + 1 / 4 + 1 / 4 + 1 / 4) = Finite (1 / 4 + 1 / 4 + 1 / 4 + 1 / 4)
       \<and> binary64 (1 / 4 + 1 / 4 + 1 / 4 + 1 / 4 + 1 / 4)
           = Finite (1 / 4 + 1 / 4 + 1 / 4 + 1 / 4 + 1 / 4)"
    using b by simp
  note rest_r = total_is_sum_of_averages [of ?r 0 0 0 0 0, THEN conjunct2, THEN conjunct2,
      THEN conjunct2]
  note rest_n = total_is_sum_of_averages [of ?n 0 0 0 0 0, THEN conjunct2, THEN conjunct2,
      THEN conjunct2]
  note rest_q = total_is_sum_of_averages [of ?q "1 / 4" "1 / 4" "1 / 4" "1 / 4" "1 / 4",
      THEN conjunct2, THEN conjunct2]
  have "cell_total ?r = ''3.50''"
    by (rule mp [OF rest_r [THEN conjunct1] 1])
  moreover have "cell_total ?n = ''2.00''"
    by (rule mp [OF rest_n [THEN conjunct2, THEN conjunct1] 2])
  moreover have "cell_total ?q = format_f 2 (Finite (1 / 4 + 1 / 4 + 1 / 4 + 1 / 4 + 1 / 4))"
    by (rule mp [OF rest_q [THEN conjunct1] 3])
  ultimately show ?thesis by simp
qed

text \<open>
  C7, as the code has it. In the line of every row, a metric cell whose value is a
  finite number is a fixed-point string with exactly two decimals, and so is the total
  when the sum is finite; the temperature cell is the dash when the temperature is
  missing and a fixed-point string with exactly one decimal when it is a finite number.
  A fixed-point string is an optional sign, digits, a point and digits: it has no
  exponent, and the number of decimals does not depend on the value. A metric cell
  whose value is missing is \<^verbatim>\<open>nan\<close>, and one whose value is infinite is \<^verbatim>\<open>inf\<close> or
  \<^verbatim>\<open>-inf\<close>; the same holds for the total, and an infinite temperature is \<^verbatim>\<open>inf\<close> or
  \<^verbatim>\<open>-inf\<close>. The line is these cells after the label and the prompt code, joined by
  \<^verbatim>\<open> & \<close>.
\<close>

theorem fixed_precision_cells:
  "(metric r c = Finite x \<or> metric r c = NegZero \<longrightarrow>
      fixed_decimals 2 (format_f 2 (metric r c)))
   \<and> (metric r c = NaN \<longrightarrow> format_f 2 (metric r c) = ''nan'')
   \<and> (metric r c = PosInf \<longrightarrow> format_f 2 (metric r c) = ''inf'')
   \<and> (metric r c = NegInf \<longrightarrow> format_f 2 (metric r c) = ''-inf'')
   \<and> cell_total r = format_f 2 (Sum_column r)
   \<and> (Sum_column r = Finite y \<or> Sum_column r = NegZero \<longrightarrow>
        fixed_decimals 2 (cell_total r))
   \<and> (Sum_column r = NaN \<longrightarrow> cell_total r = ''nan'')
   \<and> (Sum_column r = PosInf \<longrightarrow> cell_total r = ''inf'')
   \<and> (Sum_column r = NegInf \<longrightarrow> cell_total r = ''-inf'')
   \<and> (Temperature r = Finite z \<or> Temperature r = NegZero \<longrightarrow>
        cell_t r = format_f 1 (Temperature r) \<and> fixed_decimals 1 (cell_t r))
   \<and> (Temperature r = NaN \<longrightarrow> cell_t r = ''-'')
   \<and> (Temperature r = PosInf \<longrightarrow> cell_t r = ''inf'')
   \<and> (Temperature r = NegInf \<longrightarrow> cell_t r = ''-inf'')
   \<and> (fixed_decimals p s \<longleftrightarrow>
        (\<exists>sgn ip fp. s = sgn @ ip @ ''.'' @ fp \<and> (sgn = [] \<or> sgn = ''-'')
           \<and> ip \<noteq> [] \<and> list_all is_digit ip \<and> length fp = p \<and> list_all is_digit fp))
   \<and> latex_row r =
       str_join '' & ''
         ([cell_m r, py_str (Prompt r), cell_t r]
          @ map (\<lambda>c. format_f 2 (metric r c))
              [''Answer Relevancy (Avg)'', ''Correctness (Avg)'', ''Faithfulness (Avg)'',
               ''Hallucination (Avg)'', ''Specific Information Accuracy (Avg)'']
          @ [cell_total r]
          @ map (\<lambda>c. format_f 2 (metric r c))
              [''Answer Relevancy (GPT-4o)'', ''Correctness (GPT-4o)'', ''Faithfulness (GPT-4o)'',
               ''Hallucination (GPT-4o)'', ''Specific Information Accuracy (GPT-4o)'']
          @ map (\<lambda>c. format_f 2 (metric r c))
              [''Answer Relevancy (Sonnet3.5)'', ''Correctness (Sonnet3.5)'',
               ''Faithfulness (Sonnet3.5)'', ''Hallucination (Sonnet3.5)'',
               ''Specific Information Accuracy (Sonnet3.5)''])
       @ '' '' @ [bslash, bslash, newline]"
proof (intro conjI impI)
  have fin: "v = Finite q \<or> v = NegZero \<Longrightarrow> is_finite v" for v q
    by (auto simp: is_finite_def)
  show "fixed_decimals 2 (format_f 2 (metric r c))"
    if "metric r c = Finite x \<or> metric r c = NegZero"
    using fin [OF that] by (simp add: fixed_decimals_format_f)
  show "format_f 2 (metric r c) = ''nan''" if "metric r c = NaN"
    using that by simp
  show "format_f 2 (metric r c) = ''inf''" if "metric r c = PosInf"
    using that by simp
  show "format_f 2 (metric r c) = ''-inf''" if "metric r c = NegInf"
    using that by simp
  show "cell_total r = format_f 2 (Sum_column r)"
    by (simp add: cell_total_def)
  show "fixed_decimals 2 (cell_total r)" if "Sum_column r = Finite y \<or> Sum_column r = NegZero"
    using fin [OF that] by (simp add: cell_total_def fixed_decimals_format_f)
  show "cell_total r = ''nan''" if "Sum_column r = NaN"
    using that by (simp add: cell_total_def)
  show "cell_total r = ''inf''" if "Sum_column r = PosInf"
    using that by (simp add: cell_total_def)
  show "cell_total r = ''-inf''" if "Sum_column r = NegInf"
    using that by (simp add: cell_total_def)
  show "cell_t r = format_f 1 (Temperature r)"
    if "Temperature r = Finite z \<or> Temperature r = NegZero"
    using that by (auto simp: cell_t_def notna_def)
  then show "fixed_decimals 1 (cell_t r)"
    if "Temperature r = Finite z \<or> Temperature r = NegZero"
    using that fin [OF that] by (simp add: fixed_decimals_format_f)
  show "cell_t r = ''-''" if "Temperature r = NaN"
    using that by (simp add: cell_t_def notna_def)
  show "cell_t r = ''inf''" if "Temperature r = PosInf"
    using that by (simp add: cell_t_def notna_def)
  show "cell_t r = ''-inf''" if "Temperature r = NegInf"
    using that by (simp add: cell_t_def notna_def)
  show "fixed_decimals p s \<longleftrightarrow>
        (\<exists>sgn ip fp. s = sgn @ ip @ ''.'' @ fp \<and> (sgn = [] \<or> sgn = ''-'')
           \<and> ip \<noteq> [] \<and> list_all is_digit ip \<and> length fp = p \<and> list_all is_digit fp)"
    by (rule fixed_decimals_iff)
  show "latex_row r =
       str_join '' & ''
         ([cell_m r, py_str (Prompt r), cell_t r]
          @ map (\<lambda>c. format_f 2 (metric r c))
              [''Answer Relevancy (Avg)'', ''Correctness (Avg)'', ''Faithfulness (Avg)'',
               ''Hallucination (Avg)'', ''Specific Information Accuracy (Avg)'']
          @ [cell_total r]
          @ map (\<lambda>c. format_f 2 (metric r c))
              [''Answer Relevancy (GPT-4o)'', ''Correctness (GPT-4o)'', ''Faithfulness (GPT-4o)'',
               ''Hallucination (GPT-4o)'', ''Specific Information Accuracy (GPT-4o)'']
          @ map (\<lambda>c. format_f 2 (metric r c))
              [''Answer Relevancy (Sonnet3.5)'', ''Correctness (Sonnet3.5)'',
               ''Faithfulness (Sonnet3.5)'', ''Hallucination (Sonnet3.5)'',
               ''Specific Information Accuracy (Sonnet3.5)''])
       @ '' '' @ [bslash, bslash, newline]"
    by (rule latex_row_cells)
qed

theorem fixed_precision_cells_witness:
  "fixed_decimals 2
     (format_f 2 (metric \<lparr>Model = Text ''A'', Prompt = Text ''P1'',
                          Temperature = Finite (7 / 10),
                          metric = (\<lambda>c. Finite (1 / 8))\<rparr> ''Correctness (Avg)''))
   \<and> fixed_decimals 2
       (cell_total \<lparr>Model = Text ''A'', Prompt = Text ''P1'', Temperature = Finite (7 / 10),
                    metric = (\<lambda>c. Finite (1 / 8))\<rparr>)
   \<and> fixed_decimals 1
       (cell_t \<lparr>Model = Text ''A'', Prompt = Text ''P1'', Temperature = Finite (7 / 10),
                metric = (\<lambda>c. Finite (1 / 8))\<rparr>)
   \<and> cell_t \<lparr>Model = Text ''A'', Prompt = Text ''P1'', Temperature = NaN,
              metric = (\<lambda>c. PosInf)\<rparr> = ''-''
   \<and> format_f 2 (metric \<lparr>Model = Text ''A'', Prompt = Text ''P1'', Temperature = NaN,
              metric = (\<lambda>c. PosInf)\<rparr> ''Correctness (Avg)'') = ''inf''
   \<and> cell_total \<lparr>Model = Text ''A'', Prompt = Text ''P1'', Temperature = NaN,
              metric = (\<lambda>c. PosInf)\<rparr> = ''inf''"
proof -
  let ?r = "\<lparr>Model = Text ''A'', Prompt = Text ''P1'', Temperature = Finite (7 / 10),
             metric = (\<lambda>c. Finite (1 / 8))\<rparr>"
  let ?r' = "\<lparr>Model = Text ''A'', Prompt = Text ''P1'', Temperature = NaN,
              metric = (\<lambda>c. PosInf)\<rparr>"
  have sum: "float_sum (map (\<lambda>c. Finite (1 / 8)) avg_cols) = Finite (5 / 8)"
    "float_sum (map (\<lambda>c. PosInf) avg_cols) = PosInf"
    by code_simp+
  have 1: "metric ?r ''Correctness (Avg)'' = Finite (1 / 8)
           \<or> metric ?r ''Correctness (Avg)'' = NegZero" by simp
  have 2: "Sum_column ?r = Finite (5 / 8) \<or> Sum_column ?r = NegZero"
    by (simp add: Sum_column_def sum)
  have 3: "Temperature ?r = Finite (7 / 10) \<or> Temperature ?r = NegZero" by simp
  have 4: "Temperature ?r' = NaN" by simp
  have 5: "metric ?r' ''Correctness (Avg)'' = PosInf" by simp
  have 6: "Sum_column ?r' = PosInf" by (simp add: Sum_column_def sum)
  note a1 = fixed_precision_cells
    [of ?r "''Correctness (Avg)''" "1 / 8" "5 / 8" "7 / 10" 0 "[]"]
  note a2 = a1 [THEN conjunct2]
  note a3 = a2 [THEN conjunct2]
  note a4 = a3 [THEN conjunct2]
  note a5 = a4 [THEN conjunct2]
  note a6 = a5 [THEN conjunct2]
  note a7 = a6 [THEN conjunct2]
  note a8 = a7 [THEN conjunct2]
  note a9 = a8 [THEN conjunct2]
  note a10 = a9 [THEN conjunct2]
  note b1 = fixed_precision_cells [of ?r' "''Correctness (Avg)''" 0 0 0 0 "[]"]
  note b2 = b1 [THEN conjunct2]
  note b3 = b2 [THEN conjunct2]
  note b4 = b3 [THEN conjunct2]
  note b5 = b4 [THEN conjunct2]
  note b6 = b5 [THEN conjunct2]
  note b7 = b6 [THEN conjunct2]
  note b8 = b7 [THEN conjunct2]
  note b9 = b8 [THEN conjunct2]
  note b10 = b9 [THEN conjunct2]
  note b11 = b10 [THEN conjunct2]
  have "fixed_decimals 2 (format_f 2 (metric ?r ''Correctness (Avg)''))"
    by (rule mp [OF a1 [THEN conjunct1] 1])
  moreover have "fixed_decimals 2 (cell_total ?r)"
    by (rule mp [OF a6 [THEN conjunct1] 2])
  moreover have "fixed_decimals 1 (cell_t ?r)"
    by (rule mp [OF a10 [THEN conjunct1] 3, THEN conjunct2])
  moreover have "cell_t ?r' = ''-''"
    by (rule mp [OF b11 [THEN conjunct1] 4])
  moreover have "format_f 2 (metric ?r' ''Correctness (Avg)'') = ''inf''"
    by (rule mp [OF b3 [THEN conjunct1] 5])
  moreover have "cell_total ?r' = ''inf''"
    by (rule mp [OF b8 [THEN conjunct1] 6])
  ultimately show ?thesis by blast
qed

text \<open>
  The claim as the specification states it fails on a row with a missing metric value:
  its cell is \<^verbatim>\<open>nan\<close>, which has no decimal places.
\<close>

theorem missing_metric_prints_nan:
  "avg_vals
     \<lparr>Model = Text ''A'', Prompt = Text ''P1'', Temperature = Finite (1 / 2),
      metric = (\<lambda>c. if c = ''Correctness (Avg)'' then NaN else Finite (1 / 2))\<rparr>
     = ''0.50 & nan & 0.50 & 0.50 & 0.50''
   \<and> \<not> fixed_decimals 2 ''nan''"
proof -
  have "format_f 2 (Finite (1 / 2)) = ''0.50''" by code_simp
  then show ?thesis
    by (simp add: avg_vals_def avg_cols_eq not_fixed_decimals_nan)
qed

subsection \<open>When the file cannot be read\<close>

text \<open>
  C4, as the code has it. When \<^verbatim>\<open>pd.read_csv\<close> raises, the function does not fail: it
  catches the exception and returns a message as its ordinary result, the text
  \<^verbatim>\<open>Error: The file at <path> was not found.\<close> for a missing file and
  \<^verbatim>\<open>An error occurred while reading the CSV file: <e>\<close> for any other exception. The
  result is the message alone, with no part of the table in it; and whatever the
  outcome of the read, for a data frame with the columns of \<open>row\<close>, the function
  returns a string and passes no exception on.
\<close>

theorem read_failure_returns_message:
  "generate_full_latex_table csv_path (Inl FileNotFoundError) =
     Inr (''Error: The file at '' @ csv_path @ '' was not found.'')
   \<and> generate_full_latex_table csv_path (Inl (OtherException e)) =
       Inr (''An error occurred while reading the CSV file: '' @ e)
   \<and> (\<exists>text. generate_full_latex_table csv_path outcome = Inr text)"
  by (cases outcome; cases "projl outcome")
     (simp_all add: generate_full_latex_table_def)

text \<open>
  The claim as the specification states it fails: for a missing file the call returns
  normally, and what it returns is a string that a caller cannot tell from a document.
\<close>

theorem read_failure_is_not_signalled:
  "generate_full_latex_table ''macro_evaluation_results.csv'' (Inl FileNotFoundError)
     = Inr ''Error: The file at macro_evaluation_results.csv was not found.''
   \<and> \<not> isl (generate_full_latex_table ''macro_evaluation_results.csv''
              (Inl FileNotFoundError))"
  by (simp add: generate_full_latex_table_def)

section \<open>Further properties\<close>

text \<open>
  Threshold resolution for the two annotated forms of the policy, on the objects of the
  suite. Let the library's constructors return objects that keep the threshold they were
  given, \<open>obj_threshold\<close> reading it. Then, when \<^verbatim>\<open>get_metrics\<close> returns a suite, a
  float policy \<open>s\<close> gives every one of the five checks the threshold \<open>s\<close>, and a
  dictionary policy \<open>d\<close> gives each check the entry of \<open>d\<close> under the check's name when
  there is one, and otherwise the check's own fallback: 0.9 for Correctness, Specific
  Information Accuracy, Answer Relevancy and Faithfulness, 0.8 for Hallucination. The
  lookup is \<^verbatim>\<open>dict.get\<close> with a default: an unmapped name raises nothing.
\<close>

theorem get_metrics_threshold_resolution:
  fixes deepeval :: "'m metric_call \<Rightarrow> 'e + 'obj"
  assumes "\<forall>c obj. deepeval c = Inr obj \<longrightarrow> obj_threshold obj = threshold c"
  shows "(get_metrics deepeval m (ThFloat s) ir = Inr suite \<longrightarrow>
            map obj_threshold suite = [s, s, s, s, s])
     \<and> (get_metrics deepeval m (ThDict d) ir = Inr suite \<longrightarrow>
          map obj_threshold suite =
            [case d ''Correctness'' of Some v \<Rightarrow> v | None \<Rightarrow> 0.9,
             case d ''Specific Information Accuracy'' of Some v \<Rightarrow> v | None \<Rightarrow> 0.9,
             case d ''Answer Relevancy'' of Some v \<Rightarrow> v | None \<Rightarrow> 0.9,
             case d ''Faithfulness'' of Some v \<Rightarrow> v | None \<Rightarrow> 0.9,
             case d ''Hallucination'' of Some v \<Rightarrow> v | None \<Rightarrow> 0.8])
     \<and> get_metrics deepeval m (ThFloat s) ir \<noteq> Inl AttributeError
     \<and> get_metrics deepeval m (ThDict d) ir \<noteq> Inl AttributeError"
proof (intro conjI impI)
  have keep: "obj_threshold obj = threshold c" if "deepeval c = Inr obj" for c obj
    using assms that by blast
  have f: "ThFloat s = ThFloat s \<and> (\<lambda>key dflt. s) = (\<lambda>key dflt. s)
         \<or> ThFloat s = ThDict d
           \<and> (\<lambda>key dflt. s) = (\<lambda>key dflt. case d key of Some v \<Rightarrow> v | None \<Rightarrow> dflt)"
    by simp
  have d: "ThDict d = ThFloat s
           \<and> (\<lambda>key dflt. case d key of Some v \<Rightarrow> v | None \<Rightarrow> dflt) = (\<lambda>key dflt. s)
         \<or> ThDict d = ThDict d
           \<and> (\<lambda>key dflt. case d key of Some v \<Rightarrow> v | None \<Rightarrow> dflt)
             = (\<lambda>key (dflt :: real). case d key of Some v \<Rightarrow> v | None \<Rightarrow> dflt)"
    by simp
  show "map obj_threshold suite = [s, s, s, s, s]"
    if "get_metrics deepeval m (ThFloat s) ir = Inr suite"
    using that unfolding get_metrics_calls(1) [OF f]
    by (auto simp: Cons_eq_map_conv dest!: keep)
  show "map obj_threshold suite =
            [case d ''Correctness'' of Some v \<Rightarrow> v | None \<Rightarrow> 0.9,
             case d ''Specific Information Accuracy'' of Some v \<Rightarrow> v | None \<Rightarrow> 0.9,
             case d ''Answer Relevancy'' of Some v \<Rightarrow> v | None \<Rightarrow> 0.9,
             case d ''Faithfulness'' of Some v \<Rightarrow> v | None \<Rightarrow> 0.9,
             case d ''Hallucination'' of Some v \<Rightarrow> v | None \<Rightarrow> 0.8]"
    if "get_metrics deepeval m (ThDict d) ir = Inr suite"
    using that unfolding get_metrics_calls(1) [OF d]
    by (auto simp: Cons_eq_map_conv dest!: keep)
  show "get_metrics deepeval m (ThFloat s) ir \<noteq> Inl AttributeError"
    using get_metrics_calls(2) [OF f, of deepeval m ir AttributeError] by auto
  show "get_metrics deepeval m (ThDict d) ir \<noteq> Inl AttributeError"
    using get_metrics_calls(2) [OF d, of deepeval m ir AttributeError] by auto
qed

theorem get_metrics_threshold_resolution_witness:
  "\<exists>suite.
     get_metrics (Inr :: string metric_call \<Rightarrow> string + string metric_call)
       None (ThDict [''Faithfulness'' \<mapsto> 1 / 2]) False = Inr suite
     \<and> map threshold suite = [9 / 10, 9 / 10, 9 / 10, 1 / 2, 8 / 10]"
proof -
  let ?lib = "Inr :: string metric_call \<Rightarrow> string + string metric_call"
  let ?d = "[''Faithfulness'' \<mapsto> 1 / 2] :: string \<rightharpoonup> real"
  have keep: "\<forall>c obj. ?lib c = Inr obj \<longrightarrow> threshold obj = threshold c" by simp
  obtain suite where suite: "get_metrics ?lib None (ThDict ?d) False = Inr suite"
    by (simp add: get_metrics_def threshold_for_def and_then_def construct_def)
  with get_metrics_threshold_resolution [OF keep, of None 0 False suite ?d]
  have "map threshold suite = [9 / 10, 9 / 10, 9 / 10, 1 / 2, 8 / 10]" by simp
  with suite show ?thesis by (intro exI [of _ suite] conjI)
qed

lemma str_replace_absent:
  assumes "a \<notin> set s"
  shows "str_replace s [a] new = s"
proof -
  have "concat (map (\<lambda>c. if c = a then new else [c]) s) = concat (map (\<lambda>c. [c]) s)"
    using assms by (intro arg_cong [where f = concat] map_cong) auto
  then show ?thesis by (simp add: str_replace_char)
qed

lemma curated_names_without_underscore:
  assumes "model_name_mapping k = Some d"
  shows "CHR ''_'' \<notin> set d"
proof -
  have "list_all (\<lambda>(k, d). CHR ''_'' \<notin> set d) model_name_items"
    by (simp add: model_name_items_def)
  moreover have "(k, d) \<in> set model_name_items"
    using assms unfolding model_name_mapping_def by (rule map_of_SomeD)
  ultimately show ?thesis by (auto simp: list_all_iff)
qed

text \<open>
  A row whose model identifier is a key of \<open>model_name_mapping\<close> is labelled with the
  curated name, and the label cell is that name as it stands: no curated name has an
  underscore to escape.
\<close>

theorem mapped_label_is_curated_name:
  assumes "Model r = Text k" and "model_name_mapping k = Some d"
  shows "MappedModel r = Text d \<and> cell_m r = d"
proof -
  have label: "MappedModel r = Text d" using assms by (simp add: MappedModel_def)
  have "CHR ''_'' \<notin> set d" using assms(2) by (rule curated_names_without_underscore)
  then have "str_replace d ''_'' (tex ''_'') = d" by (rule str_replace_absent)
  with label show ?thesis by (simp add: cell_m_def)
qed

theorem mapped_label_is_curated_name_witness:
  "cell_m \<lparr>Model = Text ''GENAI_SHARED_AZURE_OPENAI_O1_MINI'', Prompt = Text ''P1'',
           Temperature = NaN, metric = (\<lambda>c. NaN)\<rparr> = ''O1 Mini''"
proof -
  let ?r = "\<lparr>Model = Text ''GENAI_SHARED_AZURE_OPENAI_O1_MINI'', Prompt = Text ''P1'',
             Temperature = NaN, metric = (\<lambda>c. NaN)\<rparr>"
  have "Model ?r = Text ''GENAI_SHARED_AZURE_OPENAI_O1_MINI''" by simp
  moreover have "model_name_mapping ''GENAI_SHARED_AZURE_OPENAI_O1_MINI'' = Some ''O1 Mini''"
    by (simp add: model_name_mapping_def model_name_items_def)
  ultimately show ?thesis
    using mapped_label_is_curated_name [of ?r] by simp
qed

end
